theory Spec2Isabelle
  imports Complex_Main "HOL-Library.AList"
begin

section \<open>Strings: the JavaScript and Node built-ins the routes call\<close>

text \<open>
  Strings are byte strings. The built-ins below are the ones the routes call on them:
  \<^verbatim>\<open>String.prototype.toLowerCase\<close>, \<^verbatim>\<open>RegExp.prototype.test\<close> for the two
  regular expressions of the routes, \<^verbatim>\<open>path.extname\<close> and \<^verbatim>\<open>parseInt\<close>.
  Lower-casing changes the ASCII capitals; no character outside ASCII lower-cases to a
  letter of the words that the routes look for.
\<close>

definition to_lower :: "char \<Rightarrow> char" where
  "to_lower c =
     (case map_of (zip ''ABCDEFGHIJKLMNOPQRSTUVWXYZ'' ''abcdefghijklmnopqrstuvwxyz'') c of
        Some l \<Rightarrow> l
      | None \<Rightarrow> c)"

definition toLowerCase :: "string \<Rightarrow> string" where
  "toLowerCase s = map to_lower s"

fun starts_with :: "string \<Rightarrow> string \<Rightarrow> bool" where
  "starts_with s [] = True"
| "starts_with [] (p # ps) = False"
| "starts_with (c # cs) (p # ps) = (c = p \<and> starts_with cs ps)"

fun includes_str :: "string \<Rightarrow> string \<Rightarrow> bool" where
  "includes_str [] p = (p = [])"
| "includes_str (c # cs) p = (starts_with (c # cs) p \<or> includes_str cs p)"

text \<open>
  \<^verbatim>\<open>const allowedTypes = /jpeg|jpg|png|webp/; allowedTypes.test(s)\<close>: the expression has
  no anchors, so it accepts every string that contains one of the four words.
\<close>

definition allowedTypes_test :: "string \<Rightarrow> bool" where
  "allowedTypes_test s =
     (includes_str s ''jpeg'' \<or> includes_str s ''jpg'' \<or> includes_str s ''png''
      \<or> includes_str s ''webp'')"

definition digit_val :: "char \<Rightarrow> nat option" where
  "digit_val c =
     map_of [(CHR ''0'', 0), (CHR ''1'', 1), (CHR ''2'', 2), (CHR ''3'', 3), (CHR ''4'', 4),
             (CHR ''5'', 5), (CHR ''6'', 6), (CHR ''7'', 7), (CHR ''8'', 8), (CHR ''9'', 9)] c"

definition hex_val :: "char \<Rightarrow> nat option" where
  "hex_val c =
     (case digit_val c of
        Some d \<Rightarrow> Some d
      | None \<Rightarrow>
          map_of [(CHR ''a'', 10), (CHR ''b'', 11), (CHR ''c'', 12), (CHR ''d'', 13),
                  (CHR ''e'', 14), (CHR ''f'', 15), (CHR ''A'', 10), (CHR ''B'', 11),
                  (CHR ''C'', 12), (CHR ''D'', 13), (CHR ''E'', 14), (CHR ''F'', 15)] c)"

text \<open>\<^verbatim>\<open>/^\d+$/.test(s)\<close>: one decimal digit or more, and nothing else.\<close>

definition all_digits_test :: "string \<Rightarrow> bool" where
  "all_digits_test s = (s \<noteq> [] \<and> list_all (\<lambda>c. digit_val c \<noteq> None) s)"

text \<open>
  \<^verbatim>\<open>path.extname\<close> (POSIX): trailing slashes are dropped, the last path segment is taken,
  and the extension runs from its last dot to its end. The extension is empty when the
  segment has no dot, when its only dot is its first character, and for \<^verbatim>\<open>..\<close>.
\<close>

definition strip_trailing_slashes :: "string \<Rightarrow> string" where
  "strip_trailing_slashes p = rev (dropWhile (\<lambda>c. c = CHR ''/'') (rev p))"

definition last_segment :: "string \<Rightarrow> string" where
  "last_segment p = rev (takeWhile (\<lambda>c. c \<noteq> CHR ''/'') (rev (strip_trailing_slashes p)))"

definition extname :: "string \<Rightarrow> string" where
  "extname p =
     (let b = last_segment p;
          tail = rev (takeWhile (\<lambda>c. c \<noteq> CHR ''.'') (rev b))
      in if CHR ''.'' \<notin> set b then []
         else if length tail + 1 = length b then []
         else if b = ''..'' then []
         else CHR ''.'' # tail)"

text \<open>
  \<^verbatim>\<open>parseInt(s)\<close> with no radix: leading white space is skipped, one sign is read, a
  prefix \<^verbatim>\<open>0x\<close> or \<^verbatim>\<open>0X\<close> selects radix 16, and the longest run of digits of the radix
  is the value; the rest of the string is ignored. With no digit the result is
  \<^verbatim>\<open>NaN\<close>, here \<open>None\<close>. White space is the ASCII part of the language's white space.
\<close>

definition is_ws :: "char \<Rightarrow> bool" where
  "is_ws c = (c \<in> set [CHR 0x09, CHR 0x0A, CHR 0x0B, CHR 0x0C, CHR 0x0D, CHR '' ''])"

fun radix_value :: "nat \<Rightarrow> nat list \<Rightarrow> nat" where
  "radix_value r ds = foldl (\<lambda>acc d. acc * r + d) 0 ds"

definition parse_digits :: "nat \<Rightarrow> (char \<Rightarrow> nat option) \<Rightarrow> string \<Rightarrow> nat option" where
  "parse_digits r val s =
     (let ds = takeWhile (\<lambda>c. val c \<noteq> None) s
      in if ds = [] then None else Some (radix_value r (map (\<lambda>c. the (val c)) ds)))"

definition parse_unsigned :: "string \<Rightarrow> nat option" where
  "parse_unsigned s =
     (if starts_with s ''0x'' \<or> starts_with s ''0X'' then parse_digits 16 hex_val (drop 2 s)
      else parse_digits 10 digit_val s)"

definition parseInt :: "string \<Rightarrow> int option" where
  "parseInt s =
     (let t = dropWhile is_ws s
      in case t of
           [] \<Rightarrow> None
         | c # cs \<Rightarrow>
             if c = CHR ''-'' then map_option (\<lambda>n. - int n) (parse_unsigned cs)
             else if c = CHR ''+'' then map_option int (parse_unsigned cs)
             else map_option int (parse_unsigned t))"

text \<open>Decimal digits of a natural number, as \<^verbatim>\<open>String(n)\<close> prints a small integer.\<close>

fun dec_string :: "nat \<Rightarrow> string" where
  "dec_string n =
     (if n < 10 then [''0123456789'' ! n]
      else dec_string (n div 10) @ [''0123456789'' ! (n mod 10)])"

declare dec_string.simps [simp del]

text \<open>
  A path parameter that passed \<^verbatim>\<open>z.string().regex(/^\d+$/).transform(Number)\<close> is a number
  when the handler reads it, and the handler calls \<^verbatim>\<open>parseInt\<close> on it, which first turns
  it back into text. Up to \<open>2^53\<close> that text is the decimal digits of the number. Above,
  the double rounds, and from \<open>10^21\<close> it prints in exponent form: the text of the
  runtime for such values is the parameter \<open>big\<close>.
\<close>

definition number_param_text :: "(nat \<Rightarrow> string) \<Rightarrow> string \<Rightarrow> string" where
  "number_param_text big p =
     (let n = radix_value 10 (map (\<lambda>c. the (digit_val c)) p)
      in if n \<le> 2 ^ 53 then dec_string n else big n)"

section \<open>Store: tables of \<^verbatim>\<open>db/schema.ts\<close> and the upload directory\<close>

text \<open>
  A table is the list of its rows, in insertion order, with the counter of its identity
  column. Of the database engine, which is outside the repository, two things are
  modelled, from the column types of the schema: what the \<^verbatim>\<open>jsonb\<close> column of a product
  holds of the bag written to it, and what the integer column \<^verbatim>\<open>id\<close> of a category does
  with the values of an \<^verbatim>\<open>inArray\<close>. What else the engine would refuse (a value too long
  for its column, an identifier of a by-id route outside the range of the column) is not
  modelled: such a statement throws, changes nothing and is answered 500 by
  \<^verbatim>\<open>tryCatch\<close>.
\<close>

record category =
  category_id :: nat
  category_name :: string
  category_description :: string
  category_imageUrl :: "string option"

record user =
  user_id :: nat
  user_username :: string
  user_password :: string

text \<open>
  JSON values, as a request body and a \<^verbatim>\<open>jsonb\<close> column hold them. A number is a double:
  finite values are kept exact. An object is the list of its properties, read with
  \<^const>\<open>map_of\<close>.
\<close>

datatype jsnum = NaN | PosInf | NegInf | Fin rat

datatype jsval =
    JUndefined
  | JNull
  | JBool bool
  | JNum jsnum
  | JStr string
  | JArr "jsval list"
  | JObj "(string \<times> jsval) list"

text \<open>
  A product row holds, column by column, the value the handler hands to the driver:
  the create handler coerces the flags and the index itself, the update handler hands
  the fields of the form on as they came.
\<close>

record product =
  product_id :: nat
  product_name :: jsval
  product_price :: jsval
  product_isContactForPrice :: jsval
  product_description :: jsval
  product_machineData :: jsval
  product_showInHero :: jsval
  product_heroIndex :: jsval

text \<open>
  The upload directory is the set of the files in it, each an absolute path given by its
  segments; \<open>cwd\<close> is \<^verbatim>\<open>process.cwd()\<close>.
\<close>

record store =
  categories :: "category list"
  category_seq :: nat
  products :: "product list"
  product_seq :: nat
  users :: "user list"
  files :: "string list set"
  cwd :: "string list"

fun split_slash :: "string \<Rightarrow> string list" where
  "split_slash [] = [[]]"
| "split_slash (c # cs) =
     (if c = CHR ''/'' then [] # split_slash cs
      else (case split_slash cs of
              [] \<Rightarrow> [[c]]
            | seg # segs \<Rightarrow> (c # seg) # segs))"

text \<open>\<^verbatim>\<open>path.join\<close> on an absolute first argument: the segments are joined and normalised.\<close>

definition normalize_segments :: "string list \<Rightarrow> string list" where
  "normalize_segments segs =
     foldl (\<lambda>acc seg. if seg = [] \<or> seg = ''.'' then acc
                       else if seg = ''..'' then butlast acc
                       else acc @ [seg]) [] segs"

definition path_join :: "string list \<Rightarrow> string \<Rightarrow> string list" where
  "path_join dir rel = normalize_segments (dir @ split_slash rel)"

section \<open>Responses\<close>

datatype token = Token (tok_userId: nat) (tok_username: string) (tok_secret: string)
  (tok_iat: nat) (tok_exp: nat)

datatype body =
    ErrorJson string
  | ValidationJson
  | CategoryJson category
  | CategoryListJson "category list"
  | DeletedJson string
  | ProductJson product
  | ProductWithCategoriesJson product "category list"
  | ProductListJson "(product \<times> category list) list"
  | LoginJson token nat string
  | UploadedJson string
  | Unhandled string
  | NoBody

datatype response = Response (status: nat) (payload: body)

abbreviation BAD_REQUEST :: nat where "BAD_REQUEST \<equiv> 400"
abbreviation UNAUTHORIZED :: nat where "UNAUTHORIZED \<equiv> 401"
abbreviation FORBIDDEN :: nat where "FORBIDDEN \<equiv> 403"
abbreviation NOT_FOUND :: nat where "NOT_FOUND \<equiv> 404"
abbreviation CONFLICT :: nat where "CONFLICT \<equiv> 409"
abbreviation OK :: nat where "OK \<equiv> 200"
abbreviation CREATED :: nat where "CREATED \<equiv> 201"
abbreviation INTERNAL_SERVER_ERROR :: nat where "INTERNAL_SERVER_ERROR \<equiv> 500"

text \<open>
  \<^verbatim>\<open>tryCatch\<close> answers what a handler throws. The repository holds two versions of it;
  they differ on a \<^verbatim>\<open>ZodError\<close> only.
\<close>

datatype thrown = ZodError | Error string


definition tryCatch_plain :: "thrown \<Rightarrow> response" where
  "tryCatch_plain e = Response INTERNAL_SERVER_ERROR (ErrorJson ''Internal server error'')"

section \<open>Uploads\<close>

text \<open>
  A file of a multipart request, with the \<^verbatim>\<open>uuidv4()\<close> that the storage engine draws
  for it. \<^verbatim>\<open>fileFilter\<close> of both routers accepts a file when the test passes on its
  lower-cased extension and on its MIME type.
\<close>

record upload_file =
  originalname :: string
  mimetype :: string
  size :: nat
  uuid :: string

definition fileFilter_accepts :: "upload_file \<Rightarrow> bool" where
  "fileFilter_accepts f =
     (allowedTypes_test (toLowerCase (extname (originalname f)))
      \<and> allowedTypes_test (mimetype f))"

definition stored_filename :: "upload_file \<Rightarrow> string" where
  "stored_filename f = uuid f @ extname (originalname f)"

definition fileSize_limit :: nat where
  "fileSize_limit = 5 * 1024 * 1024"

datatype upload_error = MulterError string | FilterError string

definition write_file :: "string \<Rightarrow> store \<Rightarrow> upload_file \<Rightarrow> store" where
  "write_file kind s f =
     s\<lparr>files := insert (path_join (cwd s @ [''uploads'', kind]) (stored_filename f)) (files s)\<rparr>"

text \<open>
  \<^verbatim>\<open>upload.single("image")\<close> of the categories router: the filter passes an error for a
  refused file, before anything is written; a file that reaches the size limit is removed
  again. The result is \<^verbatim>\<open>req.file.filename\<close>.
\<close>

definition category_upload :: "store \<Rightarrow> upload_file option \<Rightarrow> upload_error + (string option \<times> store)" where
  "category_upload s fo =
     (case fo of
        None \<Rightarrow> Inr (None, s)
      | Some f \<Rightarrow>
          if \<not> fileFilter_accepts f
          then Inl (FilterError ''Only image files (jpeg, jpg, png, webp) are allowed'')
          else if size f \<ge> fileSize_limit then Inl (MulterError ''File too large'')
          else Inr (Some (stored_filename f), write_file ''categories'' s f))"

text \<open>
  \<^verbatim>\<open>upload.array('images', 10)\<close> of the products router, on the files of the field
  \<^verbatim>\<open>images\<close> in the order of the request. The filter drops a refused file with
  \<^verbatim>\<open>cb(null, false)\<close> and the request goes on without it. An accepted file that reaches
  the size limit among the first ten, or else an eleventh file, is a \<^verbatim>\<open>MulterError\<close>,
  and the files written so far are removed.
\<close>

definition product_upload :: "store \<Rightarrow> upload_file list \<Rightarrow> upload_error + (string list \<times> store)" where
  "product_upload s fs =
     (let accepted = filter fileFilter_accepts (take 10 fs)
      in if list_ex (\<lambda>f. size f \<ge> fileSize_limit) accepted
         then Inl (MulterError ''File too large'')
         else if length fs > 10 then Inl (MulterError ''Too many files'')
         else Inr (map stored_filename accepted, foldl (write_file ''products'') s accepted))"

section \<open>Categories router\<close>

text \<open>
  The form of a categories request: \<^verbatim>\<open>name\<close> and \<^verbatim>\<open>description\<close> are text fields of a
  multipart form, each absent or a string, and \<^verbatim>\<open>image\<close> is at most one file.
  \<^verbatim>\<open>!name\<close> holds for an absent and for an empty field.
\<close>

record category_form =
  form_name :: "string option"
  form_description :: "string option"
  form_image :: "upload_file option"

definition falsy_field :: "string option \<Rightarrow> bool" where
  "falsy_field f = (f = None \<or> f = Some [])"

definition CATEGORY_IMAGE_URL_PREFIX :: string where
  "CATEGORY_IMAGE_URL_PREFIX = ''/uploads/categories''"

text \<open>
  An error that \<^verbatim>\<open>upload.single\<close> passes to \<^verbatim>\<open>next\<close> reaches no handler of the
  application and is answered by the final handler of the framework.
\<close>

definition final_handler :: "upload_error \<Rightarrow> response" where
  "final_handler e =
     (case e of
        MulterError msg \<Rightarrow> Response INTERNAL_SERVER_ERROR (Unhandled msg)
      | FilterError msg \<Rightarrow> Response INTERNAL_SERVER_ERROR (Unhandled msg))"

definition select_category_by_name :: "store \<Rightarrow> string \<Rightarrow> category option" where
  "select_category_by_name s n = find (\<lambda>c. category_name c = n) (categories s)"

definition select_category_by_id :: "store \<Rightarrow> int \<Rightarrow> category option" where
  "select_category_by_id s i = find (\<lambda>c. int (category_id c) = i) (categories s)"

definition insert_category :: "store \<Rightarrow> string \<Rightarrow> string \<Rightarrow> string option \<Rightarrow> category \<times> store" where
  "insert_category s n d img =
     (let row = \<lparr>category_id = Suc (category_seq s), category_name = n,
                 category_description = d, category_imageUrl = img\<rparr>
      in (row, s\<lparr>categories := categories s @ [row], category_seq := Suc (category_seq s)\<rparr>))"

text \<open>\<^verbatim>\<open>router.post("/")\<close>, the handler behind \<^verbatim>\<open>upload.single("image")\<close>.\<close>

definition categories_post_handler ::
  "store \<Rightarrow> string option \<Rightarrow> string option \<Rightarrow> string option \<Rightarrow> response \<times> store" where
  "categories_post_handler s name description file =
     (if falsy_field name \<or> falsy_field description
      then (Response BAD_REQUEST (ErrorJson ''Name and description are required''), s)
      else if select_category_by_name s (the name) \<noteq> None
      then (Response CONFLICT (ErrorJson ''Category already exists''), s)
      else
        let imageUrl = map_option (\<lambda>fn. CATEGORY_IMAGE_URL_PREFIX @ ''/'' @ fn) file;
            (row, s') = insert_category s (the name) (the description) imageUrl
        in (Response CREATED (CategoryJson row), s'))"

definition categories_post :: "store \<Rightarrow> category_form \<Rightarrow> response \<times> store" where
  "categories_post s form =
     (case category_upload s (form_image form) of
        Inl e \<Rightarrow> (final_handler e, s)
      | Inr (file, s') \<Rightarrow>
          categories_post_handler s' (form_name form) (form_description form) file)"

text \<open>\<^verbatim>\<open>router.get("/")\<close> and \<^verbatim>\<open>router.get("/:id")\<close>.\<close>

definition categories_get_all :: "store \<Rightarrow> response \<times> store" where
  "categories_get_all s = (Response OK (CategoryListJson (categories s)), s)"

definition categories_get_by_id :: "store \<Rightarrow> string \<Rightarrow> response \<times> store" where
  "categories_get_by_id s p =
     (case parseInt p of
        None \<Rightarrow> (Response BAD_REQUEST (ErrorJson ''Invalid category ID format''), s)
      | Some i \<Rightarrow>
          (case select_category_by_id s i of
             None \<Rightarrow> (Response NOT_FOUND (ErrorJson ''Category not found''), s)
           | Some c \<Rightarrow> (Response OK (CategoryJson c), s)))"

text \<open>
  Removing the image of a row: \<^verbatim>\<open>imageUrl.replace(/^\//, "")\<close> drops one leading slash,
  the rest is joined to the working directory, and the file is unlinked when it exists.
  An empty \<^verbatim>\<open>imageUrl\<close> is falsy, as \<^verbatim>\<open>null\<close> is.
\<close>

definition drop_leading_slash :: "string \<Rightarrow> string" where
  "drop_leading_slash u = (case u of [] \<Rightarrow> [] | c # cs \<Rightarrow> if c = CHR ''/'' then cs else u)"

definition image_path :: "store \<Rightarrow> string \<Rightarrow> string list" where
  "image_path s u = path_join (cwd s) (drop_leading_slash u)"

definition unlink_image :: "store \<Rightarrow> string option \<Rightarrow> store" where
  "unlink_image s img =
     (case img of
        None \<Rightarrow> s
      | Some u \<Rightarrow> if u = [] then s else s\<lparr>files := files s - {image_path s u}\<rparr>)"

text \<open>
  \<^verbatim>\<open>router.put("/:id")\<close>. The fields of \<^verbatim>\<open>updateData\<close> are the ones the form sets; with
  none of them the query builder throws (\<^verbatim>\<open>No values to set\<close>), which both versions of
  \<^verbatim>\<open>tryCatch\<close> answer 500. There is no look-up by name.
\<close>

record category_update =
  set_name :: "string option"
  set_description :: "string option"
  set_imageUrl :: "string option"

definition apply_category_update :: "category_update \<Rightarrow> category \<Rightarrow> category" where
  "apply_category_update u c =
     c\<lparr>category_name := (case set_name u of None \<Rightarrow> category_name c | Some n \<Rightarrow> n),
       category_description :=
         (case set_description u of None \<Rightarrow> category_description c | Some d \<Rightarrow> d),
       category_imageUrl :=
         (case set_imageUrl u of None \<Rightarrow> category_imageUrl c | Some i \<Rightarrow> Some i)\<rparr>"

definition update_category :: "store \<Rightarrow> int \<Rightarrow> category_update \<Rightarrow> store" where
  "update_category s i u =
     s\<lparr>categories :=
         map (\<lambda>c. if int (category_id c) = i then apply_category_update u c else c)
           (categories s)\<rparr>"

definition categories_put_handler ::
  "store \<Rightarrow> string \<Rightarrow> string option \<Rightarrow> string option \<Rightarrow> string option \<Rightarrow> response \<times> store" where
  "categories_put_handler s p name description file =
     (case parseInt p of
        None \<Rightarrow> (Response BAD_REQUEST (ErrorJson ''Invalid category ID format''), s)
      | Some i \<Rightarrow>
          (case select_category_by_id s i of
             None \<Rightarrow> (Response NOT_FOUND (ErrorJson ''Category not found''), s)
           | Some existing \<Rightarrow>
               let s1 = (if file \<noteq> None then unlink_image s (category_imageUrl existing) else s);
                   updateData =
                     \<lparr>set_name = (if falsy_field name then None else name),
                      set_description = (if falsy_field description then None else description),
                      set_imageUrl =
                        map_option (\<lambda>fn. CATEGORY_IMAGE_URL_PREFIX @ ''/'' @ fn) file\<rparr>
               in if set_name updateData = None \<and> set_description updateData = None
                     \<and> set_imageUrl updateData = None
                  then (tryCatch_plain (Error ''No values to set''), s1)
                  else
                    let s2 = update_category s1 i updateData
                    in (case select_category_by_id s2 i of
                          None \<Rightarrow> (Response OK NoBody, s2)
                        | Some updated \<Rightarrow> (Response OK (CategoryJson updated), s2))))"

definition categories_put :: "store \<Rightarrow> string \<Rightarrow> category_form \<Rightarrow> response \<times> store" where
  "categories_put s p form =
     (case category_upload s (form_image form) of
        Inl e \<Rightarrow> (final_handler e, s)
      | Inr (file, s') \<Rightarrow>
          categories_put_handler s' p (form_name form) (form_description form) file)"

text \<open>
  \<^verbatim>\<open>router.delete("/:id")\<close>, behind \<^verbatim>\<open>validateRequest({ params: categoryIdSchema })\<close>,
  which answers 400 unless the parameter is all digits and replaces it by its number.
\<close>

definition delete_category :: "store \<Rightarrow> int \<Rightarrow> store" where
  "delete_category s i =
     s\<lparr>categories := filter (\<lambda>c. int (category_id c) \<noteq> i) (categories s)\<rparr>"

definition categories_delete_handler :: "store \<Rightarrow> string \<Rightarrow> response \<times> store" where
  "categories_delete_handler s idtext =
     (case parseInt idtext of
        None \<Rightarrow> (Response NOT_FOUND (ErrorJson ''Category not found''), s)
      | Some i \<Rightarrow>
          (case select_category_by_id s i of
             None \<Rightarrow> (Response NOT_FOUND (ErrorJson ''Category not found''), s)
           | Some found \<Rightarrow>
               (Response OK (DeletedJson (''Successfully deleted '' @ [CHR 0x27]
                    @ category_name found @ [CHR 0x27])),
                delete_category (unlink_image s (category_imageUrl found)) i)))"

definition categories_delete :: "(nat \<Rightarrow> string) \<Rightarrow> store \<Rightarrow> string \<Rightarrow> response \<times> store" where
  "categories_delete big s p =
     (if \<not> all_digits_test p then (Response BAD_REQUEST ValidationJson, s)
      else categories_delete_handler s (number_param_text big p))"

text \<open>
  The router, as \<^verbatim>\<open>index.ts\<close> mounts it under \<^verbatim>\<open>/categories\<close>, and a run of requests
  from a store with empty tables.
\<close>

datatype categories_request =
    PostCategory category_form
  | GetCategories
  | GetCategory string
  | PutCategory string category_form
  | DeleteCategory string

fun categoriesRouter :: "(nat \<Rightarrow> string) \<Rightarrow> store \<Rightarrow> categories_request \<Rightarrow> response \<times> store" where
  "categoriesRouter big s (PostCategory form) = categories_post s form"
| "categoriesRouter big s GetCategories = categories_get_all s"
| "categoriesRouter big s (GetCategory p) = categories_get_by_id s p"
| "categoriesRouter big s (PutCategory p form) = categories_put s p form"
| "categoriesRouter big s (DeleteCategory p) = categories_delete big s p"

definition run_categories :: "(nat \<Rightarrow> string) \<Rightarrow> store \<Rightarrow> categories_request list \<Rightarrow> store" where
  "run_categories big s reqs = foldl (\<lambda>t r. snd (categoriesRouter big t r)) s reqs"

definition empty_store :: "string list \<Rightarrow> store" where
  "empty_store dir =
     \<lparr>categories = [], category_seq = 0, products = [], product_seq = 0, users = [],
      files = {}, cwd = dir\<rparr>"

text \<open>The store of the examples: two categories, the first with an image on disk.\<close>

abbreviation pumps :: category where
  "pumps \<equiv>
     \<lparr>category_id = 1, category_name = ''Pumps'',
      category_description = ''Industrial pumps unit'',
      category_imageUrl = Some ''/uploads/categories/u1.png''\<rparr>"

abbreviation valves :: category where
  "valves \<equiv>
     \<lparr>category_id = 12, category_name = ''Valves'',
      category_description = ''Industrial valves unit'', category_imageUrl = None\<rparr>"

abbreviation catalog :: store where
  "catalog \<equiv>
     \<lparr>categories = [pumps, valves], category_seq = 12, products = [], product_seq = 0,
      users = [], files = {[''srv'', ''uploads'', ''categories'', ''u1.png'']},
      cwd = [''srv'']\<rparr>"

section \<open>The upload helper of \<^verbatim>\<open>index.ts\<close>\<close>

text \<open>
  \<^verbatim>\<open>app.post('/upload/categories', upload.single('image'), ...)\<close>, with the \<^verbatim>\<open>multer\<close> of
  \<^verbatim>\<open>index.ts\<close>: a disk storage under \<^verbatim>\<open>__dirname\<close>, no limits and no \<^verbatim>\<open>fileFilter\<close>. The
  file name is the field name, the suffix that the storage draws from the clock and a
  random number, and the extension. The directory is taken to exist.
\<close>

definition upload_categories ::
  "string list \<Rightarrow> string \<Rightarrow> string \<Rightarrow> string \<Rightarrow> store \<Rightarrow> upload_file option \<Rightarrow> response \<times> store" where
  "upload_categories dirname protocol host uniqueSuffix s fo =
     (case fo of
        None \<Rightarrow> (Response BAD_REQUEST (ErrorJson ''No file received''), s)
      | Some f \<Rightarrow>
          let filename = ''image-'' @ uniqueSuffix @ extname (originalname f)
          in (Response OK
                (UploadedJson (protocol @ ''://'' @ host @ ''/uploads/categories/'' @ filename)),
              s\<lparr>files := insert (path_join (dirname @ [''uploads'', ''categories'']) filename)
                              (files s)\<rparr>))"

section \<open>JavaScript values in the products router\<close>

text \<open>
  The fields of a products request are JSON values: a multipart form sends strings, a
  JSON body any value; an absent field is \<^verbatim>\<open>undefined\<close>. Two built-ins are parameters
  of the model: \<open>sn\<close> is \<^verbatim>\<open>Number\<close> on a string, and \<open>jp\<close> is \<^verbatim>\<open>JSON.parse\<close> on its
  argument, \<open>None\<close> when it throws.
\<close>

fun truthy :: "jsval \<Rightarrow> bool" where
  "truthy JUndefined = False"
| "truthy JNull = False"
| "truthy (JBool b) = b"
| "truthy (JNum n) = (n \<noteq> NaN \<and> n \<noteq> Fin 0)"
| "truthy (JStr s) = (s \<noteq> [])"
| "truthy (JArr xs) = True"
| "truthy (JObj kvs) = True"

text \<open>
  \<^verbatim>\<open>Number(v)\<close>. An array is first turned into text: the empty array into the empty
  string, an array of one element into the text of that element, a longer one into a
  text with commas, which is no number; the text of an object is no number either.
\<close>

fun to_number :: "(string \<Rightarrow> jsnum) \<Rightarrow> jsval \<Rightarrow> jsnum" where
  "to_number sn JUndefined = NaN"
| "to_number sn JNull = Fin 0"
| "to_number sn (JBool b) = Fin (if b then 1 else 0)"
| "to_number sn (JNum n) = n"
| "to_number sn (JStr s) = sn s"
| "to_number sn (JArr []) = sn []"
| "to_number sn (JArr [JUndefined]) = sn []"
| "to_number sn (JArr [JNull]) = sn []"
| "to_number sn (JArr [JBool b]) = sn (if b then ''true'' else ''false'')"
| "to_number sn (JArr [JNum n]) = n"
| "to_number sn (JArr [JStr s]) = sn s"
| "to_number sn (JArr [JArr ys]) = to_number sn (JArr ys)"
| "to_number sn (JArr [JObj kvs]) = NaN"
| "to_number sn (JArr (x # y # zs)) = NaN"
| "to_number sn (JObj kvs) = NaN"

text \<open>\<^verbatim>\<open>Number(v) || 0\<close>.\<close>

definition number_or_zero :: "jsnum \<Rightarrow> jsnum" where
  "number_or_zero n = (if n = NaN \<or> n = Fin 0 then Fin 0 else n)"

text \<open>\<^verbatim>\<open>v === 'true' || v === true || false\<close>.\<close>

definition is_true_flag :: "jsval \<Rightarrow> bool" where
  "is_true_flag v = (v = JStr ''true'' \<or> v = JBool True)"

text \<open>
  The own enumerable properties that \<^verbatim>\<open>{...v}\<close> copies: the properties of an object,
  the indexed elements of an array, the indexed characters of a string, and nothing of
  any other value.
\<close>

definition index_keys :: "nat \<Rightarrow> string list" where
  "index_keys n = map dec_string [0..<n]"

fun spread_props :: "jsval \<Rightarrow> (string \<times> jsval) list" where
  "spread_props (JObj kvs) = kvs"
| "spread_props (JArr xs) = zip (index_keys (length xs)) xs"
| "spread_props (JStr s) = zip (index_keys (length s)) (map (\<lambda>c. JStr [c]) s)"
| "spread_props v = []"

definition get_property :: "jsval \<Rightarrow> string \<Rightarrow> jsval" where
  "get_property v k = (case map_of (spread_props v) k of None \<Rightarrow> JUndefined | Some x \<Rightarrow> x)"

text \<open>
  What a \<^verbatim>\<open>jsonb\<close> column holds of a value written to it. The driver writes
  \<^verbatim>\<open>JSON.stringify\<close> of the value: a number that is not finite is written as \<^verbatim>\<open>null\<close>,
  and so is \<^verbatim>\<open>undefined\<close> in an array; a property whose value is \<^verbatim>\<open>undefined\<close> is left
  out.
\<close>

fun jsonb :: "jsval \<Rightarrow> jsval" where
  "jsonb JUndefined = JNull"
| "jsonb JNull = JNull"
| "jsonb (JBool b) = JBool b"
| "jsonb (JNum (Fin q)) = JNum (Fin q)"
| "jsonb (JNum n) = JNull"
| "jsonb (JStr t) = JStr t"
| "jsonb (JArr xs) = JArr (map jsonb xs)"
| "jsonb (JObj kvs) =
     JObj (map (\<lambda>kv. (fst kv, jsonb (snd kv))) (filter (\<lambda>kv. snd kv \<noteq> JUndefined) kvs))"

text \<open>
  \<^verbatim>\<open>(Array.isArray(categoryIds) ? categoryIds : JSON.parse(categoryIds))
  .map(Number).filter((id) => !isNaN(id))\<close>, \<open>None\<close> when it throws: the text does not
  parse, or what it parses to has no \<^verbatim>\<open>map\<close>.
\<close>

definition parse_category_ids ::
  "(jsval \<Rightarrow> jsval option) \<Rightarrow> (string \<Rightarrow> jsnum) \<Rightarrow> jsval \<Rightarrow> jsnum list option" where
  "parse_category_ids jp sn v =
     (case (case v of JArr xs \<Rightarrow> Some (JArr xs) | _ \<Rightarrow> jp v) of
        Some (JArr xs) \<Rightarrow> Some (filter (\<lambda>n. n \<noteq> NaN) (map (to_number sn) xs))
      | _ \<Rightarrow> None)"

section \<open>Products router\<close>

record product_form =
  f_name :: jsval
  f_description :: jsval
  f_price :: jsval
  f_isContactForPrice :: jsval
  f_showInHero :: jsval
  f_heroIndex :: jsval
  f_machineData :: jsval
  f_categoryIds :: jsval

definition PRODUCT_IMAGE_URL_PREFIX :: string where
  "PRODUCT_IMAGE_URL_PREFIX = ''/uploads/products''"

text \<open>The callback that both upload routes of the router hand to \<^verbatim>\<open>upload\<close>.\<close>

definition upload_failed :: "upload_error \<Rightarrow> response" where
  "upload_failed e =
     (case e of
        MulterError msg \<Rightarrow> Response BAD_REQUEST (ErrorJson (''Upload error: '' @ msg))
      | FilterError msg \<Rightarrow>
          Response INTERNAL_SERVER_ERROR (ErrorJson (''Unknown error: '' @ msg)))"

text \<open>
  The insert sets the identity column, and the \<^verbatim>\<open>jsonb\<close> column \<^verbatim>\<open>machine_data\<close> holds the
  bag as JSON; \<^verbatim>\<open>.returning()\<close> gives the row as it is stored.
\<close>

definition insert_product :: "store \<Rightarrow> product \<Rightarrow> product \<times> store" where
  "insert_product s values =
     (let row = values\<lparr>product_id := Suc (product_seq s),
                      product_machineData := jsonb (product_machineData values)\<rparr>
      in (row, s\<lparr>products := products s @ [row], product_seq := Suc (product_seq s)\<rparr>))"

text \<open>
  \<^verbatim>\<open>router.post("/")\<close>, the handler behind the upload; \<open>names\<close> are the stored files.
  \<open>product_values\<close> is the object handed to \<^verbatim>\<open>.values\<close>.
\<close>

definition product_values ::
  "(string \<Rightarrow> jsnum) \<Rightarrow> product_form \<Rightarrow> string list \<Rightarrow> jsval \<Rightarrow> jsnum list \<Rightarrow> product" where
  "product_values sn form imageUrls parsedMachineData parsedCategoryIds =
     \<lparr>product_id = 0,
      product_name = f_name form,
      product_price = (if truthy (f_price form) then f_price form else JNull),
      product_isContactForPrice = JBool (is_true_flag (f_isContactForPrice form)),
      product_description = f_description form,
      product_machineData =
        JObj (AList.update ''categories'' (JArr (map JNum parsedCategoryIds))
               (AList.update ''images'' (JArr (map JStr imageUrls))
                 (spread_props parsedMachineData))),
      product_showInHero = JBool (is_true_flag (f_showInHero form)),
      product_heroIndex = JNum (number_or_zero (to_number sn (f_heroIndex form)))\<rparr>"

definition products_post_handler ::
  "(jsval \<Rightarrow> jsval option) \<Rightarrow> (string \<Rightarrow> jsnum) \<Rightarrow> store \<Rightarrow> product_form \<Rightarrow> string list
     \<Rightarrow> response \<times> store" where
  "products_post_handler jp sn s form names =
     (if \<not> truthy (f_name form) \<or> \<not> truthy (f_description form)
      then (Response BAD_REQUEST (ErrorJson ''Name and description are required''), s)
      else
        let imageUrls = map (\<lambda>fn. PRODUCT_IMAGE_URL_PREFIX @ ''/'' @ fn) names
        in case (if truthy (f_machineData form) then jp (f_machineData form)
                 else Some (JObj [])) of
             None \<Rightarrow> (Response BAD_REQUEST (ErrorJson ''Invalid machine data format''), s)
           | Some parsedMachineData \<Rightarrow>
               (case (if truthy (f_categoryIds form)
                      then parse_category_ids jp sn (f_categoryIds form) else Some []) of
                  None \<Rightarrow> (Response BAD_REQUEST (ErrorJson ''Invalid category IDs format''), s)
                | Some parsedCategoryIds \<Rightarrow>
                    let (row, s') = insert_product s
                          (product_values sn form imageUrls parsedMachineData parsedCategoryIds)
                    in (Response CREATED (ProductJson row), s')))"

definition products_post ::
  "(jsval \<Rightarrow> jsval option) \<Rightarrow> (string \<Rightarrow> jsnum) \<Rightarrow> store \<Rightarrow> product_form \<Rightarrow> upload_file list
     \<Rightarrow> response \<times> store" where
  "products_post jp sn s form fs =
     (case product_upload s fs of
        Inl e \<Rightarrow> (upload_failed e, s)
      | Inr (names, s') \<Rightarrow> products_post_handler jp sn s' form names)"


text \<open>
  \<^verbatim>\<open>router.get("/")\<close>. For each product the categories are filtered in memory with
  \<^verbatim>\<open>machineData.categories?.includes(cat.id)\<close>: \<^verbatim>\<open>undefined\<close> when the property is
  absent or \<^verbatim>\<open>null\<close>, membership in an array, containment of the printed identifier in a
  string, and a \<^verbatim>\<open>TypeError\<close> on any other value, which has no \<^verbatim>\<open>includes\<close>.
\<close>

definition machine_categories :: "product \<Rightarrow> jsval" where
  "machine_categories item =
     get_property (if truthy (product_machineData item) then product_machineData item
                   else JObj []) ''categories''"

definition id_value :: "nat \<Rightarrow> jsval" where
  "id_value n = JNum (Fin (of_nat n))"

definition includes_id :: "jsval \<Rightarrow> nat \<Rightarrow> thrown + bool" where
  "includes_id v n =
     (case v of
        JUndefined \<Rightarrow> Inr False
      | JNull \<Rightarrow> Inr False
      | JArr xs \<Rightarrow> Inr (id_value n \<in> set xs)
      | JStr t \<Rightarrow> Inr (includes_str t (dec_string n))
      | _ \<Rightarrow> Inl (Error ''machineData.categories?.includes is not a function''))"

fun filter_categories :: "jsval \<Rightarrow> category list \<Rightarrow> thrown + category list" where
  "filter_categories v [] = Inr []"
| "filter_categories v (c # cs) =
     (case includes_id v (category_id c) of
        Inl e \<Rightarrow> Inl e
      | Inr b \<Rightarrow>
          (case filter_categories v cs of
             Inl e \<Rightarrow> Inl e
           | Inr rest \<Rightarrow> Inr (if b then c # rest else rest)))"

fun products_with_categories ::
  "category list \<Rightarrow> product list \<Rightarrow> thrown + (product \<times> category list) list" where
  "products_with_categories cats [] = Inr []"
| "products_with_categories cats (item # items) =
     (case filter_categories (machine_categories item) cats of
        Inl e \<Rightarrow> Inl e
      | Inr productCategories \<Rightarrow>
          (case products_with_categories cats items of
             Inl e \<Rightarrow> Inl e
           | Inr rest \<Rightarrow> Inr ((item, productCategories) # rest)))"

definition products_get_all :: "store \<Rightarrow> response \<times> store" where
  "products_get_all s =
     (case products_with_categories (categories s) (products s) of
        Inl e \<Rightarrow> (tryCatch_plain e, s)
      | Inr rows \<Rightarrow> (Response OK (ProductListJson rows), s))"

text \<open>
  \<^verbatim>\<open>router.get("/:id")\<close>. The categories are selected with \<^verbatim>\<open>inArray\<close> when
  \<^verbatim>\<open>machineData.categories?.length\<close> is truthy: a non-empty array or string, or an object
  with a truthy \<^verbatim>\<open>length\<close>. For a value that is no array the query is no valid statement,
  and throws. The values of an array are parameters that the engine reads as values of
  the integer column \<^verbatim>\<open>id\<close>: \<^verbatim>\<open>null\<close> matches no row; a number is read from its text
  and a string from its own, and one that is not a decimal integer of 32 bits is
  refused, as the text of any other value is, and the query throws.
\<close>

definition select_product_by_id :: "store \<Rightarrow> int \<Rightarrow> product option" where
  "select_product_by_id s i = find (\<lambda>p. int (product_id p) = i) (products s)"

definition has_length :: "jsval \<Rightarrow> bool" where
  "has_length v =
     (case v of
        JArr xs \<Rightarrow> xs \<noteq> []
      | JStr t \<Rightarrow> t \<noteq> []
      | JObj kvs \<Rightarrow> truthy (get_property (JObj kvs) ''length'')
      | _ \<Rightarrow> False)"

definition int4_range :: "int \<Rightarrow> bool" where
  "int4_range i = (- (2 ^ 31) \<le> i \<and> i < 2 ^ 31)"

definition int4_text :: "string \<Rightarrow> int option" where
  "int4_text t =
     (let u = dropWhile is_ws (rev (dropWhile is_ws (rev t)));
          negative = starts_with u ''-'';
          ds = (if starts_with u ''-'' \<or> starts_with u ''+'' then drop 1 u else u);
          n = int (radix_value 10 (map (\<lambda>c. the (digit_val c)) ds));
          i = (if negative then - n else n)
      in if all_digits_test ds \<and> int4_range i then Some i else None)"

definition int4_param :: "jsval \<Rightarrow> thrown + int option" where
  "int4_param v =
     (case v of
        JUndefined \<Rightarrow> Inr None
      | JNull \<Rightarrow> Inr None
      | JNum n \<Rightarrow>
          (case n of
             Fin q \<Rightarrow>
               if of_int \<lfloor>q\<rfloor> = q \<and> int4_range \<lfloor>q\<rfloor> then Inr (Some \<lfloor>q\<rfloor>)
               else Inl (Error ''invalid input for type integer'')
           | _ \<Rightarrow> Inl (Error ''invalid input for type integer''))
      | JStr t \<Rightarrow>
          (case int4_text t of
             Some i \<Rightarrow> Inr (Some i)
           | None \<Rightarrow> Inl (Error ''invalid input for type integer''))
      | _ \<Rightarrow> Inl (Error ''invalid input for type integer''))"

fun int4_params :: "jsval list \<Rightarrow> thrown + int option list" where
  "int4_params [] = Inr []"
| "int4_params (v # vs) =
     (case int4_param v of
        Inl e \<Rightarrow> Inl e
      | Inr i \<Rightarrow>
          (case int4_params vs of
             Inl e \<Rightarrow> Inl e
           | Inr rest \<Rightarrow> Inr (i # rest)))"

definition select_categories_in :: "category list \<Rightarrow> jsval \<Rightarrow> thrown + category list" where
  "select_categories_in cats v =
     (case v of
        JArr xs \<Rightarrow>
          (case int4_params xs of
             Inl e \<Rightarrow> Inl e
           | Inr ids \<Rightarrow> Inr (filter (\<lambda>c. Some (int (category_id c)) \<in> set ids) cats))
      | _ \<Rightarrow> Inl (Error ''syntax error''))"

definition product_categories :: "category list \<Rightarrow> product \<Rightarrow> thrown + category list" where
  "product_categories cats item =
     (if has_length (machine_categories item)
      then select_categories_in cats (machine_categories item)
      else Inr [])"

definition products_get_by_id :: "store \<Rightarrow> string \<Rightarrow> response \<times> store" where
  "products_get_by_id s p =
     (case parseInt p of
        None \<Rightarrow> (Response BAD_REQUEST (ErrorJson ''Invalid product ID format''), s)
      | Some i \<Rightarrow>
          (case select_product_by_id s i of
             None \<Rightarrow> (Response NOT_FOUND (ErrorJson ''Product not found''), s)
           | Some item \<Rightarrow>
               (case product_categories (categories s) item of
                  Inl e \<Rightarrow> (tryCatch_plain e, s)
                | Inr productCategories \<Rightarrow>
                    (Response OK (ProductWithCategoriesJson item productCategories), s))))"

text \<open>
  \<^verbatim>\<open>router.put("/:id")\<close>. \<^verbatim>\<open>updateData\<close> holds the fields that the form sets; the bag
  is set when the form holds \<^verbatim>\<open>machineData\<close> or \<^verbatim>\<open>categoryIds\<close>, to the spread of the
  stored bag, of the parsed one and of the category list, in this order. The bag is
  written to the \<^verbatim>\<open>jsonb\<close> column: what the stored bag holds is JSON already and is
  written back as it is, and \<open>jsonb\<close> is taken of what the form adds.
\<close>

record product_update =
  upd_name :: "jsval option"
  upd_description :: "jsval option"
  upd_price :: "jsval option"
  upd_isContactForPrice :: "jsval option"
  upd_showInHero :: "jsval option"
  upd_heroIndex :: "jsval option"
  upd_machineData :: "jsval option"

definition defined :: "jsval \<Rightarrow> jsval option" where
  "defined v = (if v = JUndefined then None else Some v)"

definition if_truthy :: "jsval \<Rightarrow> jsval option" where
  "if_truthy v = (if truthy v then Some v else None)"

definition or_else :: "'a option \<Rightarrow> 'a \<Rightarrow> 'a" where
  "or_else u old = (case u of None \<Rightarrow> old | Some v \<Rightarrow> v)"

definition apply_product_update :: "product_update \<Rightarrow> product \<Rightarrow> product" where
  "apply_product_update u p =
     p\<lparr>product_name := or_else (upd_name u) (product_name p),
       product_description := or_else (upd_description u) (product_description p),
       product_price := or_else (upd_price u) (product_price p),
       product_isContactForPrice :=
         or_else (upd_isContactForPrice u) (product_isContactForPrice p),
       product_showInHero := or_else (upd_showInHero u) (product_showInHero p),
       product_heroIndex := or_else (upd_heroIndex u) (product_heroIndex p),
       product_machineData := or_else (upd_machineData u) (product_machineData p)\<rparr>"

definition update_product :: "store \<Rightarrow> int \<Rightarrow> product_update \<Rightarrow> store" where
  "update_product s i u =
     s\<lparr>products :=
         map (\<lambda>p. if int (product_id p) = i then apply_product_update u p else p)
           (products s)\<rparr>"

definition no_values :: "product_update \<Rightarrow> bool" where
  "no_values u =
     (upd_name u = None \<and> upd_description u = None \<and> upd_price u = None
      \<and> upd_isContactForPrice u = None \<and> upd_showInHero u = None
      \<and> upd_heroIndex u = None \<and> upd_machineData u = None)"

definition merged_machineData :: "jsval \<Rightarrow> jsval option \<Rightarrow> jsnum list option \<Rightarrow> jsval" where
  "merged_machineData existing parsedMachineData parsedCategoryIds =
     (let existingMachineData = (if truthy existing then existing else JObj []);
          merged = AList.merge (spread_props existingMachineData)
                     (case parsedMachineData of
                        None \<Rightarrow> []
                      | Some v \<Rightarrow> spread_props (jsonb v))
      in JObj (case parsedCategoryIds of
                 None \<Rightarrow> merged
               | Some ids \<Rightarrow>
                   AList.update ''categories'' (jsonb (JArr (map JNum ids))) merged))"

definition products_put_handler ::
  "(jsval \<Rightarrow> jsval option) \<Rightarrow> (string \<Rightarrow> jsnum) \<Rightarrow> store \<Rightarrow> string \<Rightarrow> product_form
     \<Rightarrow> response \<times> store" where
  "products_put_handler jp sn s p form =
     (case parseInt p of
        None \<Rightarrow> (Response BAD_REQUEST (ErrorJson ''Invalid product ID format''), s)
      | Some i \<Rightarrow>
          (case select_product_by_id s i of
             None \<Rightarrow> (Response NOT_FOUND (ErrorJson ''Product not found''), s)
           | Some existing \<Rightarrow>
               if f_machineData form \<noteq> JUndefined \<and> jp (f_machineData form) = None
               then (Response BAD_REQUEST (ErrorJson ''Invalid machine data format''), s)
               else if f_categoryIds form \<noteq> JUndefined
                       \<and> parse_category_ids jp sn (f_categoryIds form) = None
               then (Response BAD_REQUEST (ErrorJson ''Invalid category IDs format''), s)
               else
                 let parsedMachineData =
                       (if f_machineData form \<noteq> JUndefined then jp (f_machineData form)
                        else None);
                     parsedCategoryIds =
                       (if f_categoryIds form \<noteq> JUndefined
                        then parse_category_ids jp sn (f_categoryIds form) else None);
                     updateData =
                       \<lparr>upd_name = if_truthy (f_name form),
                        upd_description = if_truthy (f_description form),
                        upd_price = defined (f_price form),
                        upd_isContactForPrice = defined (f_isContactForPrice form),
                        upd_showInHero = defined (f_showInHero form),
                        upd_heroIndex = defined (f_heroIndex form),
                        upd_machineData =
                          (if parsedMachineData \<noteq> None \<or> parsedCategoryIds \<noteq> None
                           then Some (merged_machineData (product_machineData existing)
                                        parsedMachineData parsedCategoryIds)
                           else None)\<rparr>
                 in if no_values updateData
                    then (tryCatch_plain (Error ''No values to set''), s)
                    else
                      let s' = update_product s i updateData
                      in (case select_product_by_id s' i of
                            None \<Rightarrow> (Response OK NoBody, s')
                          | Some updated \<Rightarrow> (Response OK (ProductJson updated), s'))))"

definition products_put ::
  "(jsval \<Rightarrow> jsval option) \<Rightarrow> (string \<Rightarrow> jsnum) \<Rightarrow> store \<Rightarrow> string \<Rightarrow> product_form
     \<Rightarrow> upload_file list \<Rightarrow> response \<times> store" where
  "products_put jp sn s p form fs =
     (case product_upload s fs of
        Inl e \<Rightarrow> (upload_failed e, s)
      | Inr (names, s') \<Rightarrow> products_put_handler jp sn s' p form)"


section \<open>Auth: tokens and login\<close>


definition jwt_decode :: "token \<Rightarrow> nat \<times> string" where
  "jwt_decode t = (tok_userId t, tok_username t)"

definition jwt_verify :: "string \<Rightarrow> nat \<Rightarrow> token \<Rightarrow> (nat \<times> string) option" where
  "jwt_verify secret now t =
     (if tok_secret t = secret \<and> now < tok_exp t then Some (jwt_decode t) else None)"

definition authenticateToken :: "string \<Rightarrow> nat \<Rightarrow> token option \<Rightarrow> response + (nat \<times> string)" where
  "authenticateToken secret now header =
     (case header of
        None \<Rightarrow> Inl (Response UNAUTHORIZED (ErrorJson ''Authentication required''))
      | Some t \<Rightarrow>
          (case jwt_verify secret now t of
             None \<Rightarrow> Inl (Response FORBIDDEN (ErrorJson ''Invalid or expired token''))
           | Some u \<Rightarrow> Inr u))"




section \<open>Examples\<close>

text \<open>
  A product of the example store with one image and both categories, the store with it,
  a file that the filter refuses, and a form with no field.
\<close>

abbreviation widget :: product where
  "widget \<equiv>
     \<lparr>product_id = 1, product_name = JStr ''Widget'', product_price = JStr ''10'',
      product_isContactForPrice = JBool False,
      product_description = JStr ''A widget for pumps'',
      product_machineData =
        JObj [(''power'', JStr ''5kW''),
              (''images'', JArr [JStr ''/uploads/products/w1.png'']),
              (''categories'', JArr [JNum (Fin 1), JNum (Fin 12)])],
      product_showInHero = JBool False, product_heroIndex = JNum (Fin 0)\<rparr>"

abbreviation shop :: store where
  "shop \<equiv> catalog\<lparr>products := [widget], product_seq := 1\<rparr>"

abbreviation cat_gif :: upload_file where
  "cat_gif \<equiv> \<lparr>originalname = ''cat.gif'', mimetype = ''image/gif'', size = 1024, uuid = ''u2''\<rparr>"

abbreviation no_fields :: product_form where
  "no_fields \<equiv>
     \<lparr>f_name = JUndefined, f_description = JUndefined, f_price = JUndefined,
      f_isContactForPrice = JUndefined, f_showInHero = JUndefined,
      f_heroIndex = JUndefined, f_machineData = JUndefined, f_categoryIds = JUndefined\<rparr>"

abbreviation widget_form :: product_form where
  "widget_form \<equiv>
     no_fields\<lparr>f_name := JStr ''Widget'', f_description := JStr ''A widget for pumps''\<rparr>"

abbreviation pump_png :: upload_file where
  "pump_png \<equiv>
     \<lparr>originalname = ''pump.png'', mimetype = ''image/png'', size = 2048, uuid = ''u3''\<rparr>"

text \<open>
  Values for the two parameters in the examples: \<^verbatim>\<open>JSON.parse\<close> on the texts that the
  examples send, and \<^verbatim>\<open>Number\<close> on the text \<^verbatim>\<open>3\<close>.
\<close>

abbreviation client_bag :: string where
  \<open>client_bag \<equiv> ''{"power":"5kW","images":["x"],"categories":[99]}''\<close>

abbreviation power_bag :: string where
  \<open>power_bag \<equiv> ''{"power":"7kW"}''\<close>

abbreviation parse_examples :: "jsval \<Rightarrow> jsval option" where
  "parse_examples \<equiv>
     (\<lambda>v. if v = JStr client_bag
          then Some (JObj [(''power'', JStr ''5kW''), (''images'', JArr [JStr ''x'']),
                           (''categories'', JArr [JNum (Fin 99)])])
          else if v = JStr power_bag then Some (JObj [(''power'', JStr ''7kW'')])
          else if v = JStr ''[12]'' then Some (JArr [JNum (Fin 12)])
          else if v = JStr ''[1,12]'' then Some (JArr [JNum (Fin 1), JNum (Fin 12)])
          else None)"

abbreviation three :: "string \<Rightarrow> jsnum" where
  "three \<equiv> (\<lambda>t. if t = ''3'' then Fin 3 else NaN)"

text \<open>Create forms of the examples and the rows they store in the example store.\<close>

abbreviation flags_form :: product_form where
  "flags_form \<equiv>
     widget_form\<lparr>f_isContactForPrice := JStr ''true'', f_showInHero := JStr ''yes'',
       f_heroIndex := JStr ''3''\<rparr>"

abbreviation flags_row :: product where
  "flags_row \<equiv>
     \<lparr>product_id = 1, product_name = JStr ''Widget'', product_price = JNull,
      product_isContactForPrice = JBool True,
      product_description = JStr ''A widget for pumps'',
      product_machineData = JObj [(''images'', JArr []), (''categories'', JArr [])],
      product_showInHero = JBool False, product_heroIndex = JNum (Fin 3)\<rparr>"

abbreviation bag_form :: product_form where
  "bag_form \<equiv> widget_form\<lparr>f_machineData := JStr client_bag, f_categoryIds := JStr ''[1,12]''\<rparr>"

abbreviation bag_row :: product where
  "bag_row \<equiv>
     \<lparr>product_id = 1, product_name = JStr ''Widget'', product_price = JNull,
      product_isContactForPrice = JBool False,
      product_description = JStr ''A widget for pumps'',
      product_machineData =
        JObj [(''power'', JStr ''5kW''),
              (''images'', JArr [JStr ''/uploads/products/u3.png'']),
              (''categories'', JArr [JNum (Fin 1), JNum (Fin 12)])],
      product_showInHero = JBool False, product_heroIndex = JNum (Fin 0)\<rparr>"




text \<open>
  A file whose extension only contains one of the four words, and category lists that
  hold a number that is no identifier, with \<^verbatim>\<open>JSON.parse\<close> and \<^verbatim>\<open>Number\<close> on them.
\<close>

abbreviation web_page :: upload_file where
  "web_page \<equiv>
     \<lparr>originalname = ''x.webpage'', mimetype = ''image/png'', size = 1024, uuid = ''u9''\<rparr>"

abbreviation fraction_ids :: string where
  "fraction_ids \<equiv> ''[1.5]''"

abbreviation infinity_ids :: string where
  \<open>infinity_ids \<equiv> ''["Infinity"]''\<close>

abbreviation parse_ids :: "jsval \<Rightarrow> jsval option" where
  "parse_ids \<equiv>
     (\<lambda>v. if v = JStr fraction_ids then Some (JArr [JNum (Fin (3 / 2))])
          else if v = JStr infinity_ids then Some (JArr [JStr ''Infinity''])
          else None)"

abbreviation infinity :: "string \<Rightarrow> jsnum" where
  "infinity \<equiv> (\<lambda>t. if t = ''Infinity'' then PosInf else NaN)"

section \<open>Lemmas on the built-ins\<close>

lemma digit_val_digit: "d < 10 \<Longrightarrow> digit_val (''0123456789'' ! d) = Some d"
proof -
  assume "d < 10"
  then have "d = 0 \<or> d = 1 \<or> d = 2 \<or> d = 3 \<or> d = 4 \<or> d = 5 \<or> d = 6 \<or> d = 7 \<or> d = 8 \<or> d = 9"
    by arith
  then show ?thesis
    by (elim disjE) (simp_all add: digit_val_def)
qed

lemma digit_not_ws: "digit_val c = Some d \<Longrightarrow> \<not> is_ws c \<and> c \<noteq> CHR ''-'' \<and> c \<noteq> CHR ''+'' \<and> c \<noteq> CHR ''x'' \<and> c \<noteq> CHR ''X''"
  by (auto simp: digit_val_def is_ws_def split: if_splits)

lemma dec_string_digits: "list_all (\<lambda>c. digit_val c \<noteq> None) (dec_string n)"
proof (induction n rule: dec_string.induct)
  case (1 n)
  show ?case
  proof (cases "n < 10")
    case True
    then show ?thesis by (subst dec_string.simps) (simp add: digit_val_digit)
  next
    case False
    then have "n mod 10 < 10" by simp
    with False "1" show ?thesis
      by (subst dec_string.simps) (simp add: digit_val_digit)
  qed
qed

lemma dec_string_nonempty: "dec_string n \<noteq> []"
  by (subst dec_string.simps) simp

lemma radix_value_snoc: "radix_value r (ds @ [d]) = radix_value r ds * r + d"
  by simp

lemma dec_string_value: "radix_value 10 (map (\<lambda>c. the (digit_val c)) (dec_string n)) = n"
proof (induction n rule: dec_string.induct)
  case (1 n)
  show ?case
  proof (cases "n < 10")
    case True
    then show ?thesis by (subst dec_string.simps) (simp add: digit_val_digit)
  next
    case False
    then have m: "n mod 10 < 10" by simp
    from False "1" have ih: "radix_value 10 (map (\<lambda>c. the (digit_val c)) (dec_string (n div 10))) = n div 10"
      by simp
    have "radix_value 10 (map (\<lambda>c. the (digit_val c)) (dec_string n)) =
      radix_value 10 (map (\<lambda>c. the (digit_val c)) (dec_string (n div 10)) @ [n mod 10])"
      using False m by (subst dec_string.simps) (simp add: digit_val_digit)
    also have "\<dots> = (n div 10) * 10 + n mod 10"
      unfolding radix_value_snoc ih ..
    finally show ?thesis by simp
  qed
qed

lemma takeWhile_all: "list_all P xs \<Longrightarrow> takeWhile P xs = xs"
  by (induction xs) auto

lemma starts_with_0x_digits:
  "list_all (\<lambda>c. digit_val c \<noteq> None) s \<Longrightarrow> \<not> starts_with s ''0x'' \<and> \<not> starts_with s ''0X''"
proof (cases s)
  case Nil then show ?thesis by simp
next
  case (Cons a t)
  assume d: "list_all (\<lambda>c. digit_val c \<noteq> None) s"
  show ?thesis
  proof (cases t)
    case Nil with Cons show ?thesis by simp
  next
    case (Cons b u)
    with d \<open>s = a # t\<close> obtain k where "digit_val b = Some k" by auto
    then have "b \<noteq> CHR ''x'' \<and> b \<noteq> CHR ''X''" using digit_not_ws by blast
    with Cons \<open>s = a # t\<close> show ?thesis by simp
  qed
qed

lemma parseInt_digits:
  assumes "all_digits_test s"
  shows "parseInt s = Some (int (radix_value 10 (map (\<lambda>c. the (digit_val c)) s)))"
proof -
  from assms obtain c cs where s: "s = c # cs" and all: "list_all (\<lambda>c. digit_val c \<noteq> None) s"
    by (cases s) (auto simp: all_digits_test_def)
  then obtain k where "digit_val c = Some k" by auto
  then have c: "\<not> is_ws c" "c \<noteq> CHR ''-''" "c \<noteq> CHR ''+''" using digit_not_ws by blast+
  have "parse_unsigned s = parse_digits 10 digit_val s"
    using starts_with_0x_digits [OF all] by (simp add: parse_unsigned_def)
  also have "\<dots> = Some (radix_value 10 (map (\<lambda>c. the (digit_val c)) s))"
    unfolding parse_digits_def Let_def takeWhile_all [OF all] using s by simp
  finally have pu: "parse_unsigned s = Some (radix_value 10 (map (\<lambda>c. the (digit_val c)) s))" .
  show ?thesis
    using c pu s by (simp add: parseInt_def del: radix_value.simps)
qed

lemma parseInt_dec_string: "parseInt (dec_string n) = Some (int n)"
  using parseInt_digits [of "dec_string n"] dec_string_digits [of n] dec_string_nonempty [of n]
  by (simp add: all_digits_test_def dec_string_value del: radix_value.simps)

section \<open>Lemmas on the categories router\<close>

lemma category_upload_categories:
  "category_upload s fo = Inr (file, s') \<Longrightarrow> categories s' = categories s"
  by (auto simp: category_upload_def write_file_def split: option.splits if_splits)

lemma select_category_by_name_member:
  "c \<in> set (categories s) \<Longrightarrow> select_category_by_name s (category_name c) \<noteq> None"
  by (auto simp: select_category_by_name_def find_None_iff)

lemma categories_post_handler_duplicate:
  assumes "c \<in> set (categories s)"
  shows "categories (snd (categories_post_handler s (Some (category_name c)) d file)) = categories s"
    and "category_name c \<noteq> [] \<Longrightarrow> \<not> falsy_field d \<Longrightarrow>
         fst (categories_post_handler s (Some (category_name c)) d file)
           = Response CONFLICT (ErrorJson ''Category already exists'')"
  using select_category_by_name_member [OF assms]
  by (simp_all add: categories_post_handler_def falsy_field_def)

lemma categories_delete_exact:
  assumes "all_digits_test p" and "radix_value 10 (map (\<lambda>c. the (digit_val c)) p) = n"
    and "n \<le> 2 ^ 53"
  shows "categories_delete big s p =
     (case select_category_by_id s (int n) of
        None \<Rightarrow> (Response NOT_FOUND (ErrorJson ''Category not found''), s)
      | Some found \<Rightarrow>
          (Response OK (DeletedJson (''Successfully deleted '' @ [CHR 0x27]
               @ category_name found @ [CHR 0x27])),
           delete_category (unlink_image s (category_imageUrl found)) (int n)))"
proof -
  have "number_param_text big p = dec_string n"
    using assms(2,3) by (simp add: number_param_text_def Let_def del: radix_value.simps)
  then show ?thesis
    using assms(1) by (simp add: categories_delete_def categories_delete_handler_def parseInt_dec_string)
qed

lemma delete_category_removes_row:
  "select_category_by_id (delete_category s i) i = None"
  by (simp add: select_category_by_id_def delete_category_def find_None_iff)

lemma unlink_image_removes_file:
  "u \<noteq> [] \<Longrightarrow> image_path s u \<notin> files (delete_category (unlink_image s (Some u)) i)"
  by (simp add: unlink_image_def delete_category_def)

section \<open>Lemmas on the products router\<close>

lemma filter_categories_array:
  "filter_categories (JArr xs) cats = Inr (filter (\<lambda>c. id_value (category_id c) \<in> set xs) cats)"
  by (induction cats) (simp_all add: includes_id_def)

lemma filter_categories_undefined: "filter_categories JUndefined cats = Inr []"
  by (induction cats) (simp_all add: includes_id_def)

lemma product_categories_undefined:
  "machine_categories pr = JUndefined \<Longrightarrow> product_categories cats pr = Inr []"
  by (simp add: product_categories_def has_length_def)

lemma int4_params_identifiers:
  "\<forall>i\<in>set ids. int4_range i \<Longrightarrow>
     int4_params (map (\<lambda>i. JNum (Fin (of_int i))) ids) = Inr (map Some ids)"
  by (induction ids) (simp_all add: int4_param_def)

lemma product_upload_tables:
  "product_upload s fs = Inr (names, s') \<Longrightarrow>
     products s' = products s \<and> product_seq s' = product_seq s \<and> categories s' = categories s
     \<and> names = map stored_filename (filter fileFilter_accepts fs)"
proof -
  have w: "\<And>t gs. products (foldl (write_file ''products'') t gs) = products t
      \<and> product_seq (foldl (write_file ''products'') t gs) = product_seq t
      \<and> categories (foldl (write_file ''products'') t gs) = categories t"
  proof -
    fix t gs show "products (foldl (write_file ''products'') t gs) = products t
      \<and> product_seq (foldl (write_file ''products'') t gs) = product_seq t
      \<and> categories (foldl (write_file ''products'') t gs) = categories t"
      by (induction gs arbitrary: t) (simp_all add: write_file_def)
  qed
  assume "product_upload s fs = Inr (names, s')"
  then show ?thesis
    using w by (auto simp: product_upload_def Let_def split: if_splits)
qed

lemma products_post_handler_created:
  assumes "products_post_handler jp sn s form names = (Response CREATED (ProductJson row), s')"
  shows "\<exists>md ids.
     (if truthy (f_categoryIds form) then parse_category_ids jp sn (f_categoryIds form)
      else Some []) = Some ids
     \<and> row = (product_values sn form (map (\<lambda>fn. PRODUCT_IMAGE_URL_PREFIX @ ''/'' @ fn) names)
               md ids)
             \<lparr>product_id := Suc (product_seq s),
              product_machineData := jsonb (product_machineData
                (product_values sn form (map (\<lambda>fn. PRODUCT_IMAGE_URL_PREFIX @ ''/'' @ fn) names)
                   md ids))\<rparr>
     \<and> products s' = products s @ [row]"
  using assms
  by (auto simp: products_post_handler_def insert_product_def Let_def
      split: if_splits option.splits)

lemma products_post_created:
  assumes "products_post jp sn s form fs = (Response CREATED (ProductJson row), s')"
  shows "\<exists>md ids.
     (if truthy (f_categoryIds form) then parse_category_ids jp sn (f_categoryIds form)
      else Some []) = Some ids
     \<and> row = (product_values sn form
                (map (\<lambda>fn. PRODUCT_IMAGE_URL_PREFIX @ ''/'' @ fn)
                   (map stored_filename (filter fileFilter_accepts fs)))
                md ids)
             \<lparr>product_id := Suc (product_seq s),
              product_machineData := jsonb (product_machineData
                (product_values sn form
                   (map (\<lambda>fn. PRODUCT_IMAGE_URL_PREFIX @ ''/'' @ fn)
                      (map stored_filename (filter fileFilter_accepts fs)))
                   md ids))\<rparr>
     \<and> products s' = products s @ [row]"
proof (cases "product_upload s fs")
  case (Inl e)
  with assms show ?thesis
    by (cases e) (simp_all add: products_post_def upload_failed_def)
next
  case (Inr r)
  obtain names s1 where r: "r = (names, s1)" by (cases r)
  from Inr r have t: "products s1 = products s" "product_seq s1 = product_seq s"
    "names = map stored_filename (filter fileFilter_accepts fs)"
    using product_upload_tables by blast+
  from assms Inr r
  have "products_post_handler jp sn s1 form names = (Response CREATED (ProductJson row), s')"
    by (simp add: products_post_def)
  from products_post_handler_created [OF this] show ?thesis
    unfolding t .
qed

lemma apply_product_update_id: "product_id (apply_product_update u p) = product_id p"
  by (simp add: apply_product_update_def)

lemma find_updated_product:
  "find (\<lambda>p. int (product_id p) = i)
     (map (\<lambda>p. if int (product_id p) = i then apply_product_update u p else p) xs)
   = map_option (apply_product_update u) (find (\<lambda>p. int (product_id p) = i) xs)"
  by (induction xs) (simp_all add: apply_product_update_id)

lemma select_after_update_product:
  "select_product_by_id (update_product s i u) i
     = map_option (apply_product_update u) (select_product_by_id s i)"
  by (simp add: select_product_by_id_def update_product_def find_updated_product)

lemma spread_props_or_empty:
  "spread_props (if truthy e then e else JObj []) = spread_props e"
  by (cases e) (auto simp: index_keys_def)

lemma map_of_absent: "k \<notin> fst ` set ps \<Longrightarrow> map_of ps k = None"
  by (simp add: map_of_eq_None_iff)

lemma map_of_jsonb:
  "map_of kvs k = Some v \<Longrightarrow> v \<noteq> JUndefined \<Longrightarrow>
     map_of (map (\<lambda>kv. (fst kv, jsonb (snd kv))) (filter (\<lambda>kv. snd kv \<noteq> JUndefined) kvs)) k
       = Some (jsonb v)"
  by (induction kvs) (auto split: if_splits)

lemma jsonb_keys: "fst ` set (spread_props (jsonb v)) \<subseteq> fst ` set (spread_props v)"
proof (cases v)
  case (JNum n)
  then show ?thesis by (cases n) simp_all
next
  case (JArr xs)
  have a: "map fst (zip (index_keys (length xs)) (map jsonb xs)) = index_keys (length xs)"
    by (simp add: index_keys_def)
  have b: "map fst (zip (index_keys (length xs)) xs) = index_keys (length xs)"
    by (simp add: index_keys_def)
  have "fst ` set (zip (index_keys (length xs)) (map jsonb xs))
      = fst ` set (zip (index_keys (length xs)) xs)"
    unfolding set_map [symmetric] a b ..
  with JArr show ?thesis by simp
next
  case (JObj kvs)
  then show ?thesis by force
qed simp_all

lemma merged_machineData_frame:
  assumes "\<And>v. pm = Some v \<Longrightarrow> k \<notin> fst ` set (spread_props v)"
    and "pc \<noteq> None \<Longrightarrow> k \<noteq> ''categories''"
  shows "get_property (merged_machineData e pm pc) k = get_property e k"
proof -
  let ?ps = "case pm of None \<Rightarrow> [] | Some v \<Rightarrow> spread_props (jsonb v)"
  have "k \<notin> fst ` set ?ps"
  proof (cases pm)
    case None
    then show ?thesis by simp
  next
    case (Some v)
    with assms(1) have "k \<notin> fst ` set (spread_props v)" by simp
    with jsonb_keys [of v] Some show ?thesis by auto
  qed
  then have n: "map_of ?ps k = None" by (rule map_of_absent)
  have m: "map_of (AList.merge (spread_props e) ?ps) k = map_of (spread_props e) k"
    by (simp add: merge_conv' map_add_def n)
  show ?thesis
  proof (cases pc)
    case None
    then show ?thesis
      by (simp add: merged_machineData_def get_property_def Let_def spread_props_or_empty m)
  next
    case (Some ids)
    with assms(2) have "k \<noteq> ''categories''" by simp
    with Some show ?thesis
      by (simp add: merged_machineData_def get_property_def Let_def spread_props_or_empty
          update_conv' m del: jsonb.simps)
  qed
qed

lemma snd_case_option: "snd (case x of None \<Rightarrow> (a, t) | Some y \<Rightarrow> (b y, t)) = t"
  by (cases x) simp_all

lemma products_put_handler_frame:
  assumes i: "parseInt p = Some i" and pr: "select_product_by_id s i = Some pr"
    and md: "\<And>v. f_machineData form \<noteq> JUndefined \<Longrightarrow> jp (f_machineData form) = Some v
               \<Longrightarrow> k \<notin> fst ` set (spread_props v)"
    and cat: "f_categoryIds form \<noteq> JUndefined \<Longrightarrow> k \<noteq> ''categories''"
  shows "\<exists>pr'. select_product_by_id (snd (products_put_handler jp sn s p form)) i = Some pr'
     \<and> get_property (product_machineData pr') k = get_property (product_machineData pr) k"
proof -
  define pm where "pm = (if f_machineData form \<noteq> JUndefined then jp (f_machineData form) else None)"
  define pc where "pc = (if f_categoryIds form \<noteq> JUndefined
     then parse_category_ids jp sn (f_categoryIds form) else None)"
  define ud where "ud =
     \<lparr>upd_name = if_truthy (f_name form),
      upd_description = if_truthy (f_description form),
      upd_price = defined (f_price form),
      upd_isContactForPrice = defined (f_isContactForPrice form),
      upd_showInHero = defined (f_showInHero form),
      upd_heroIndex = defined (f_heroIndex form),
      upd_machineData =
        (if pm \<noteq> None \<or> pc \<noteq> None
         then Some (merged_machineData (product_machineData pr) pm pc)
         else None)\<rparr>"
  have cases: "snd (products_put_handler jp sn s p form) = s
     \<or> snd (products_put_handler jp sn s p form) = update_product s i ud"
    by (simp add: products_put_handler_def i pr pm_def pc_def ud_def Let_def snd_case_option)
  have frame: "get_property (merged_machineData (product_machineData pr) pm pc) k
      = get_property (product_machineData pr) k"
  proof (rule merged_machineData_frame)
    fix v assume "pm = Some v"
    then show "k \<notin> fst ` set (spread_props v)"
      using md by (auto simp: pm_def split: if_splits)
  next
    assume "pc \<noteq> None"
    then show "k \<noteq> ''categories''" using cat by (auto simp: pc_def split: if_splits)
  qed
  have upd: "get_property (product_machineData (apply_product_update ud pr)) k
      = get_property (product_machineData pr) k"
    using frame by (simp add: apply_product_update_def or_else_def ud_def)
  from cases show ?thesis
  proof
    assume "snd (products_put_handler jp sn s p form) = s"
    with pr show ?thesis by simp
  next
    assume "snd (products_put_handler jp sn s p form) = update_product s i ud"
    with pr upd show ?thesis by (simp add: select_after_update_product)
  qed
qed

section \<open>Properties of the routes\<close>

text \<open>
  C1. A create request whose name is the name of a stored category leaves the category
  rows as they are, whatever else it holds. It is answered 409 when it reaches the look-up
  by name: the upload passed, and name and description are not empty.
\<close>

theorem categories_post_duplicate_name:
  assumes "c \<in> set (categories s)" and "form_name form = Some (category_name c)"
  shows "categories (snd (categories_post s form)) = categories s \<and>
         ((\<exists>r. category_upload s (form_image form) = Inr r) \<and> category_name c \<noteq> []
            \<and> \<not> falsy_field (form_description form)
          \<longrightarrow> fst (categories_post s form)
                = Response CONFLICT (ErrorJson ''Category already exists''))"
proof (cases "category_upload s (form_image form)")
  case (Inl e)
  then show ?thesis by (simp add: categories_post_def)
next
  case (Inr r)
  obtain fl s' where r: "r = (fl, s')" by (cases r)
  with Inr have cs: "categories s' = categories s"
    using category_upload_categories by blast
  with assms(1) have mem: "c \<in> set (categories s')" by simp
  show ?thesis
    using Inr r assms(2) cs categories_post_handler_duplicate [OF mem]
    by (simp add: categories_post_def)
qed

theorem categories_post_duplicate_name_witness:
  "categories (snd (categories_post catalog
       \<lparr>form_name = Some ''Pumps'', form_description = Some ''Second pumps unit'',
        form_image = None\<rparr>)) = [pumps, valves]
   \<and> fst (categories_post catalog
       \<lparr>form_name = Some ''Pumps'', form_description = Some ''Second pumps unit'',
        form_image = None\<rparr>) = Response CONFLICT (ErrorJson ''Category already exists'')"
  using categories_post_duplicate_name [of pumps catalog
      "\<lparr>form_name = Some ''Pumps'', form_description = Some ''Second pumps unit'',
        form_image = None\<rparr>"]
  by (simp add: category_upload_def falsy_field_def)

text \<open>
  C1 as it is written fails on a request with the stored name and no description: the
  check of the required fields comes first and answers 400.
\<close>

theorem categories_post_duplicate_name_counterexample:
  "pumps \<in> set (categories catalog)
   \<and> form_name \<lparr>form_name = Some ''Pumps'', form_description = None, form_image = None\<rparr>
       = Some (category_name pumps)
   \<and> categories_post catalog
       \<lparr>form_name = Some ''Pumps'', form_description = None, form_image = None\<rparr>
     = (Response BAD_REQUEST (ErrorJson ''Name and description are required''), catalog)"
  by (simp add: categories_post_def category_upload_def categories_post_handler_def
      falsy_field_def)

text \<open>
  C2. Deleting removes the image and the row of a stored identifier and answers 404 for
  an identifier that is not stored. The handler reads the identifier with
  \<^verbatim>\<open>parseInt\<close> from a parameter that is a number by then: the path
  \<^verbatim>\<open>/categories/1000000000000000000000\<close> holds \<open>10^21\<close>, which prints as
  \<^verbatim>\<open>1e+21\<close> and is read as 1. No category has the identifier \<open>10^21\<close>, and the request
  deletes category 1 with its image.
\<close>

theorem categories_delete_exponent_id:
  "categories_delete (\<lambda>n. ''1e+21'') catalog ''1000000000000000000000''
   = (Response OK (DeletedJson (''Successfully deleted '' @ [CHR 0x27] @ ''Pumps'' @ [CHR 0x27])),
      catalog\<lparr>categories := [valves], files := {}\<rparr>)"
  by (simp add: categories_delete_def all_digits_test_def digit_val_def number_param_text_def
      categories_delete_handler_def parseInt_def is_ws_def parse_unsigned_def
      parse_digits_def select_category_by_id_def delete_category_def unlink_image_def
      image_path_def path_join_def drop_leading_slash_def normalize_segments_def)

text \<open>
  For a parameter of digits below \<open>2^31\<close>, the range of the identifier column, the route
  does what C2 says: the row of a stored identifier is removed with its image, and an
  identifier that is not stored is answered 404 with the store unchanged.
\<close>

lemma categories_delete_stored_id:
  assumes "all_digits_test p" and "radix_value 10 (map (\<lambda>c. the (digit_val c)) p) = n"
    and "n < 2 ^ 31" and "select_category_by_id s (int n) = Some found"
  shows "fst (categories_delete big s p)
       = Response OK (DeletedJson (''Successfully deleted '' @ [CHR 0x27]
            @ category_name found @ [CHR 0x27]))"
    and "select_category_by_id (snd (categories_delete big s p)) (int n) = None"
    and "category_imageUrl found = Some u \<Longrightarrow> u \<noteq> [] \<Longrightarrow>
         image_path s u \<notin> files (snd (categories_delete big s p))"
proof -
  from assms(3) have "n \<le> 2 ^ 53" by simp
  note exact = categories_delete_exact [OF assms(1,2) this]
  show "fst (categories_delete big s p)
       = Response OK (DeletedJson (''Successfully deleted '' @ [CHR 0x27]
            @ category_name found @ [CHR 0x27]))"
    using assms(4) by (simp add: exact)
  show "select_category_by_id (snd (categories_delete big s p)) (int n) = None"
    using assms(4) by (simp add: exact delete_category_removes_row)
  show "category_imageUrl found = Some u \<Longrightarrow> u \<noteq> [] \<Longrightarrow>
         image_path s u \<notin> files (snd (categories_delete big s p))"
    using assms(4) unlink_image_removes_file [of u s "int n"] by (simp add: exact)
qed

lemma categories_delete_unknown_id:
  assumes "all_digits_test p" and "radix_value 10 (map (\<lambda>c. the (digit_val c)) p) = n"
    and "n < 2 ^ 31" and "select_category_by_id s (int n) = None"
  shows "categories_delete big s p = (Response NOT_FOUND (ErrorJson ''Category not found''), s)"
proof -
  from assms(3) have "n \<le> 2 ^ 53" by simp
  from categories_delete_exact [OF assms(1,2) this] assms(4) show ?thesis by simp
qed

text \<open>
  C3. A by-id route is to refuse an identifier that is not a numeric string. The GET and
  PUT routes read it with \<^verbatim>\<open>parseInt\<close>, which stops at the first character that is not
  a digit: \<^verbatim>\<open>12abc\<close> is read as 12 and the category is returned. The DELETE routes check
  the parameter against \<^verbatim>\<open>/^\d+$/\<close> and do refuse it.
\<close>

theorem categories_get_by_id_trailing_text:
  "categories_get_by_id catalog ''12abc'' = (Response OK (CategoryJson valves), catalog)"
  by (simp add: categories_get_by_id_def parseInt_def is_ws_def parse_unsigned_def
      parse_digits_def digit_val_def select_category_by_id_def)

text \<open>
  What the by-id routes do refuse: the GET route a parameter that starts with no number,
  the DELETE route every parameter that is not all digits; neither changes the store.
\<close>

lemma categories_get_by_id_not_a_number:
  "parseInt p = None \<Longrightarrow>
     categories_get_by_id s p
       = (Response BAD_REQUEST (ErrorJson ''Invalid category ID format''), s)"
  by (simp add: categories_get_by_id_def)

lemma categories_delete_not_all_digits:
  "\<not> all_digits_test p \<Longrightarrow>
     categories_delete big s p = (Response BAD_REQUEST ValidationJson, s)"
  by (simp add: categories_delete_def)

lemma not_numeric_examples:
  "parseInt ''x'' = None \<and> \<not> all_digits_test ''x'' \<and> \<not> all_digits_test ''12abc''"
  by (simp add: parseInt_def is_ws_def parse_unsigned_def parse_digits_def digit_val_def
      all_digits_test_def)

text \<open>
  C4. A file whose extension or MIME type is outside \<^verbatim>\<open>jpeg\<close>, \<^verbatim>\<open>jpg\<close>, \<^verbatim>\<open>png\<close>,
  \<^verbatim>\<open>webp\<close> is to be refused with a 400 and not written. The filter names these four
  types in its message and tests them with \<^verbatim>\<open>/jpeg|jpg|png|webp/\<close>, which has no
  anchors: the extension \<^verbatim>\<open>.webpage\<close> is none of the four and passes, with a MIME type
  that the client sets. The create request with such a file is answered 201 and the
  file is written.
\<close>

theorem categories_post_writes_file_outside_allow_list:
  "toLowerCase (extname (originalname web_page)) = ''.webpage''
   \<and> categories_post catalog
       \<lparr>form_name = Some ''Hoses'', form_description = Some ''Industrial hoses unit'',
        form_image = Some web_page\<rparr>
     = (Response CREATED (CategoryJson
          \<lparr>category_id = 13, category_name = ''Hoses'',
           category_description = ''Industrial hoses unit'',
           category_imageUrl = Some ''/uploads/categories/u9.webpage''\<rparr>),
        catalog\<lparr>categories :=
          [pumps, valves,
           \<lparr>category_id = 13, category_name = ''Hoses'',
            category_description = ''Industrial hoses unit'',
            category_imageUrl = Some ''/uploads/categories/u9.webpage''\<rparr>],
          category_seq := 13,
          files := {[''srv'', ''uploads'', ''categories'', ''u9.webpage''],
                    [''srv'', ''uploads'', ''categories'', ''u1.png'']}\<rparr>)"
  by (simp add: categories_post_def category_upload_def fileFilter_accepts_def extname_def
      last_segment_def strip_trailing_slashes_def toLowerCase_def to_lower_def
      allowedTypes_test_def fileSize_limit_def stored_filename_def write_file_def
      path_join_def normalize_segments_def categories_post_handler_def falsy_field_def
      select_category_by_name_def insert_category_def CATEGORY_IMAGE_URL_PREFIX_def Let_def)

text \<open>
  The upload helper of \<^verbatim>\<open>index.ts\<close> has no filter at all: it writes a \<^verbatim>\<open>.gif\<close> and
  answers 200.
\<close>

lemma upload_categories_writes_gif:
  "upload_categories [''srv''] ''http'' ''localhost:3000'' ''1700000000000-42'' catalog
     (Some cat_gif)
   = (Response OK (UploadedJson
        ''http://localhost:3000/uploads/categories/image-1700000000000-42.gif''),
      catalog\<lparr>files :=
        {[''srv'', ''uploads'', ''categories'', ''image-1700000000000-42.gif''],
         [''srv'', ''uploads'', ''categories'', ''u1.png'']}\<rparr>)"
  by (simp add: upload_categories_def extname_def last_segment_def
      strip_trailing_slashes_def path_join_def normalize_segments_def Let_def)

text \<open>
  What the two filters do with a file that their test refuses: nothing is written. The
  categories router fails the request with the error of the filter, which no handler of
  the application turns into a 400; the products router drops the file, and a request
  of at most ten files is handled as if the file were not in it, so that a create
  request with a \<^verbatim>\<open>.gif\<close> is answered 201.
\<close>

lemma refused_file_is_not_written:
  assumes "\<not> fileFilter_accepts f"
  shows "(form_image form = Some f \<longrightarrow>
            categories_post s form
              = (Response INTERNAL_SERVER_ERROR
                   (Unhandled ''Only image files (jpeg, jpg, png, webp) are allowed''), s)
          \<and> categories_put s p form
              = (Response INTERNAL_SERVER_ERROR
                   (Unhandled ''Only image files (jpeg, jpg, png, webp) are allowed''), s))
     \<and> (length (pre @ f # post) \<le> 10 \<longrightarrow>
            product_upload s (pre @ f # post) = product_upload s (pre @ post))"
proof -
  have c: "category_upload s (Some f)
      = Inl (FilterError ''Only image files (jpeg, jpg, png, webp) are allowed'')"
    using assms by (simp add: category_upload_def)
  have p: "length (pre @ f # post) \<le> 10 \<Longrightarrow>
      product_upload s (pre @ f # post) = product_upload s (pre @ post)"
    using assms by (simp add: product_upload_def Let_def)
  show ?thesis
    using c p by (auto simp: categories_post_def categories_put_def final_handler_def)
qed

lemma products_post_drops_gif:
  "\<not> fileFilter_accepts cat_gif
   \<and> fst (products_post (\<lambda>v. None) (\<lambda>t. NaN) catalog widget_form [cat_gif])
     = Response CREATED (ProductJson
          \<lparr>product_id = 1, product_name = JStr ''Widget'', product_price = JNull,
           product_isContactForPrice = JBool False,
           product_description = JStr ''A widget for pumps'',
           product_machineData = JObj [(''images'', JArr []), (''categories'', JArr [])],
           product_showInHero = JBool False, product_heroIndex = JNum (Fin 0)\<rparr>)
   \<and> files (snd (products_post (\<lambda>v. None) (\<lambda>t. NaN) catalog widget_form [cat_gif]))
     = files catalog"
  by (simp add: fileFilter_accepts_def extname_def last_segment_def
      strip_trailing_slashes_def toLowerCase_def to_lower_def allowedTypes_test_def
      products_post_def product_upload_def products_post_handler_def
      product_values_def insert_product_def is_true_flag_def number_or_zero_def Let_def)

text \<open>
  C5. The list route and the by-id route are to resolve the same categories for a
  product. The create handler keeps every category identifier that is a number, the list
  route looks the identifiers of the categories up in the list in memory, and the by-id
  route hands the list to the engine, which refuses a number that is no integer of the
  identifier column. A product created with the category list \<^verbatim>\<open>[1.5]\<close> is listed with
  no category, and the by-id route answers 500 for it.
\<close>

theorem created_product_is_listed_and_not_got:
  "fst (products_post parse_ids infinity catalog
          (widget_form\<lparr>f_categoryIds := JStr fraction_ids\<rparr>) [])
     = Response CREATED (ProductJson
         (flags_row\<lparr>product_isContactForPrice := JBool False,
            product_machineData :=
              JObj [(''images'', JArr []), (''categories'', JArr [JNum (Fin (3 / 2))])],
            product_heroIndex := JNum (Fin 0)\<rparr>))
   \<and> fst (products_get_all (snd (products_post parse_ids infinity catalog
          (widget_form\<lparr>f_categoryIds := JStr fraction_ids\<rparr>) [])))
     = Response OK (ProductListJson
         [(flags_row\<lparr>product_isContactForPrice := JBool False,
             product_machineData :=
               JObj [(''images'', JArr []), (''categories'', JArr [JNum (Fin (3 / 2))])],
             product_heroIndex := JNum (Fin 0)\<rparr>, [])])
   \<and> fst (products_get_by_id (snd (products_post parse_ids infinity catalog
          (widget_form\<lparr>f_categoryIds := JStr fraction_ids\<rparr>) [])) ''1'')
     = Response INTERNAL_SERVER_ERROR (ErrorJson ''Internal server error'')"
proof -
  have fl: "\<lfloor>3 / 2 :: rat\<rfloor> = 1"
    by (rule floor_unique) simp_all
  have s: "products_post parse_ids infinity catalog
          (widget_form\<lparr>f_categoryIds := JStr fraction_ids\<rparr>) []
     = (Response CREATED (ProductJson
         (flags_row\<lparr>product_isContactForPrice := JBool False,
            product_machineData :=
              JObj [(''images'', JArr []), (''categories'', JArr [JNum (Fin (3 / 2))])],
            product_heroIndex := JNum (Fin 0)\<rparr>)),
        catalog\<lparr>products :=
          [flags_row\<lparr>product_isContactForPrice := JBool False,
             product_machineData :=
               JObj [(''images'', JArr []), (''categories'', JArr [JNum (Fin (3 / 2))])],
             product_heroIndex := JNum (Fin 0)\<rparr>],
          product_seq := 1\<rparr>)"
    by (simp add: products_post_def product_upload_def products_post_handler_def
        parse_category_ids_def product_values_def insert_product_def is_true_flag_def
        number_or_zero_def Let_def)
  show ?thesis
    unfolding s
    by (simp add: products_get_all_def machine_categories_def get_property_def
        includes_id_def id_value_def products_get_by_id_def parseInt_def is_ws_def
        parse_unsigned_def parse_digits_def digit_val_def select_product_by_id_def
        product_categories_def has_length_def select_categories_in_def int4_param_def
        fl tryCatch_plain_def)
qed

text \<open>
  On a list of integers of the identifier column the two routes do resolve the same
  categories, the ones whose identifier is in the list; on a bag with no list, none.
\<close>

lemma list_and_get_agree_on_identifiers:
  assumes "machine_categories pr = JArr (map (\<lambda>i. JNum (Fin (of_int i))) ids)"
    and "\<forall>i\<in>set ids. int4_range i"
  shows "filter_categories (machine_categories pr) cats
       = Inr (filter (\<lambda>c. int (category_id c) \<in> set ids) cats)"
    and "product_categories cats pr
       = Inr (filter (\<lambda>c. int (category_id c) \<in> set ids) cats)"
proof -
  have eq: "\<And>n i. (rat_of_nat n = rat_of_int i) = (int n = i)"
    by (metis of_int_of_nat_eq of_int_eq_iff)
  have mem: "\<And>n. (id_value n \<in> (\<lambda>i. JNum (Fin (of_int i))) ` set ids) = (int n \<in> set ids)"
    by (auto simp: id_value_def eq)
  show "filter_categories (machine_categories pr) cats
       = Inr (filter (\<lambda>c. int (category_id c) \<in> set ids) cats)"
    unfolding assms(1) filter_categories_array by (simp add: mem)
  show "product_categories cats pr
       = Inr (filter (\<lambda>c. int (category_id c) \<in> set ids) cats)"
  proof (cases ids)
    case Nil
    with assms(1) show ?thesis
      by (simp add: product_categories_def has_length_def)
  next
    case (Cons i rest)
    with assms(1) have "has_length (machine_categories pr)"
      by (simp add: has_length_def)
    then show ?thesis
      using int4_params_identifiers [OF assms(2)]
      by (simp add: product_categories_def select_categories_in_def assms(1) image_iff)
  qed
qed

lemma list_and_get_agree_without_list:
  "machine_categories pr = JUndefined \<Longrightarrow>
     filter_categories (machine_categories pr) cats = Inr []
     \<and> product_categories cats pr = Inr []"
  by (simp add: filter_categories_undefined product_categories_undefined)

text \<open>
  The bag is JSON of any shape. On a bag whose \<^verbatim>\<open>categories\<close> is the number 5, which an
  update with \<^verbatim>\<open>machineData\<close> \<^verbatim>\<open>{"categories":5}\<close> stores, it is the list route that
  throws, on \<^verbatim>\<open>includes\<close>, and the by-id route that answers 200 with no category.
\<close>

lemma list_throws_on_number:
  "fst (products_get_all (shop\<lparr>products :=
       [widget\<lparr>product_machineData := JObj [(''categories'', JNum (Fin 5))]\<rparr>]\<rparr>))
     = Response INTERNAL_SERVER_ERROR (ErrorJson ''Internal server error'')
   \<and> fst (products_get_by_id (shop\<lparr>products :=
       [widget\<lparr>product_machineData := JObj [(''categories'', JNum (Fin 5))]\<rparr>]\<rparr>) ''1'')
     = Response OK (ProductWithCategoriesJson
          (widget\<lparr>product_machineData := JObj [(''categories'', JNum (Fin 5))]\<rparr>) [])"
  by (simp add: products_get_all_def machine_categories_def get_property_def includes_id_def
      tryCatch_plain_def products_get_by_id_def parseInt_def is_ws_def parse_unsigned_def
      parse_digits_def digit_val_def select_product_by_id_def product_categories_def
      has_length_def)

text \<open>
  C6. An update keeps the value of every key of the bag of the addressed product that it
  does not touch: a key that is no property of the \<^verbatim>\<open>machineData\<close> of the form and that
  is not \<^verbatim>\<open>categories\<close> when the form holds \<^verbatim>\<open>categoryIds\<close>. With neither field in the
  form, as in an update of the price only, every key is kept.
\<close>

theorem products_put_keeps_other_keys:
  assumes "parseInt p = Some i" and "select_product_by_id s i = Some pr"
    and "\<And>v. f_machineData form \<noteq> JUndefined \<Longrightarrow> jp (f_machineData form) = Some v
               \<Longrightarrow> k \<notin> fst ` set (spread_props v)"
    and "f_categoryIds form \<noteq> JUndefined \<Longrightarrow> k \<noteq> ''categories''"
  shows "\<exists>pr'. select_product_by_id (snd (products_put jp sn s p form fs)) i = Some pr'
     \<and> get_property (product_machineData pr') k = get_property (product_machineData pr) k"
proof (cases "product_upload s fs")
  case (Inl e)
  with assms(2) show ?thesis by (simp add: products_put_def)
next
  case (Inr r)
  obtain names s1 where r: "r = (names, s1)" by (cases r)
  from Inr r have "products s1 = products s" using product_upload_tables by blast
  with assms(2) have "select_product_by_id s1 i = Some pr"
    by (simp add: select_product_by_id_def)
  from products_put_handler_frame [OF assms(1) this assms(3,4)] Inr r
  show ?thesis by (simp add: products_put_def)
qed

theorem products_put_keeps_other_keys_witness:
  "\<exists>pr'. select_product_by_id
       (snd (products_put parse_examples (\<lambda>t. NaN) shop ''1''
          (no_fields\<lparr>f_price := JStr ''12.50'', f_machineData := JStr power_bag\<rparr>) [])) 1
       = Some pr'
     \<and> get_property (product_machineData pr') ''images''
         = JArr [JStr ''/uploads/products/w1.png'']"
proof -
  have a: "parseInt ''1'' = Some 1"
    by (simp add: parseInt_def is_ws_def parse_unsigned_def parse_digits_def digit_val_def)
  have b: "select_product_by_id shop 1 = Some widget"
    by (simp add: select_product_by_id_def)
  have c: "get_property (product_machineData widget) ''images''
      = JArr [JStr ''/uploads/products/w1.png'']"
    by (simp add: get_property_def)
  from products_put_keeps_other_keys [OF a b, of
      "no_fields\<lparr>f_price := JStr ''12.50'', f_machineData := JStr power_bag\<rparr>"
      parse_examples "''images''" "\<lambda>t. NaN" "[]"]
  show ?thesis unfolding c by simp
qed

text \<open>
  C6 as it is written fails on the key \<^verbatim>\<open>categories\<close>: a form that holds
  \<^verbatim>\<open>categoryIds\<close> and no \<^verbatim>\<open>machineData\<close> names no key of the bag, and the update
  replaces the category list of the bag.
\<close>

theorem products_put_keeps_other_keys_counterexample:
  "f_machineData (no_fields\<lparr>f_categoryIds := JStr ''[12]''\<rparr>) = JUndefined
   \<and> get_property (product_machineData widget) ''categories'' = JArr [JNum (Fin 1), JNum (Fin 12)]
   \<and> products_put parse_examples (\<lambda>t. NaN) shop ''1'' (no_fields\<lparr>f_categoryIds := JStr ''[12]''\<rparr>) []
     = (Response OK (ProductJson
          (widget\<lparr>product_machineData :=
             JObj [(''power'', JStr ''5kW''),
                   (''images'', JArr [JStr ''/uploads/products/w1.png'']),
                   (''categories'', JArr [JNum (Fin 12)])]\<rparr>)),
        shop\<lparr>products :=
          [widget\<lparr>product_machineData :=
             JObj [(''power'', JStr ''5kW''),
                   (''images'', JArr [JStr ''/uploads/products/w1.png'']),
                   (''categories'', JArr [JNum (Fin 12)])]\<rparr>]\<rparr>)"
  by (simp add: get_property_def products_put_def product_upload_def products_put_handler_def
      parseInt_def is_ws_def parse_unsigned_def parse_digits_def digit_val_def
      select_product_by_id_def parse_category_ids_def if_truthy_def defined_def
      no_values_def merged_machineData_def update_product_def apply_product_update_def
      or_else_def Let_def)

text \<open>
  C7. The row that a create request stores has \<^verbatim>\<open>isContactForPrice\<close> and
  \<^verbatim>\<open>showInHero\<close> true exactly when the field of the form is the string \<^verbatim>\<open>true\<close> or the
  boolean \<^verbatim>\<open>true\<close>, and \<^verbatim>\<open>heroIndex\<close> the number of the field, 0 when the field is
  absent or no number.
\<close>

theorem products_post_coerces_flags:
  assumes "products_post jp sn s form fs = (Response CREATED (ProductJson row), s')"
  shows "products s' = products s @ [row]
     \<and> product_isContactForPrice row
         = JBool (f_isContactForPrice form = JStr ''true'' \<or> f_isContactForPrice form = JBool True)
     \<and> product_showInHero row
         = JBool (f_showInHero form = JStr ''true'' \<or> f_showInHero form = JBool True)
     \<and> product_heroIndex row
         = JNum (if to_number sn (f_heroIndex form) = NaN then Fin 0
                 else to_number sn (f_heroIndex form))"
proof -
  from products_post_created [OF assms] obtain md ids where
    row: "row = (product_values sn form
                (map (\<lambda>fn. PRODUCT_IMAGE_URL_PREFIX @ ''/'' @ fn)
                   (map stored_filename (filter fileFilter_accepts fs)))
                md ids)
             \<lparr>product_id := Suc (product_seq s),
              product_machineData := jsonb (product_machineData
                (product_values sn form
                   (map (\<lambda>fn. PRODUCT_IMAGE_URL_PREFIX @ ''/'' @ fn)
                      (map stored_filename (filter fileFilter_accepts fs)))
                   md ids))\<rparr>"
    and st: "products s' = products s @ [row]"
    by blast
  have h: "number_or_zero (to_number sn (f_heroIndex form))
       = (if to_number sn (f_heroIndex form) = NaN then Fin 0 else to_number sn (f_heroIndex form))"
    by (simp add: number_or_zero_def)
  show ?thesis
    using st h by (simp add: row product_values_def is_true_flag_def)
qed

theorem products_post_coerces_flags_witness:
  "fst (products_post (\<lambda>v. None) three catalog flags_form []) = Response CREATED (ProductJson flags_row)
   \<and> products (snd (products_post (\<lambda>v. None) three catalog flags_form [])) = [flags_row]
   \<and> product_isContactForPrice flags_row = JBool True
   \<and> product_showInHero flags_row = JBool False
   \<and> product_heroIndex flags_row = JNum (Fin 3)"
proof -
  have e: "products_post (\<lambda>v. None) three catalog flags_form []
    = (Response CREATED (ProductJson flags_row),
       snd (products_post (\<lambda>v. None) three catalog flags_form []))"
    by (simp add: products_post_def product_upload_def products_post_handler_def
        product_values_def insert_product_def is_true_flag_def number_or_zero_def Let_def)
  then have f: "fst (products_post (\<lambda>v. None) three catalog flags_form [])
      = Response CREATED (ProductJson flags_row)"
    by (simp add: prod_eq_iff)
  from products_post_coerces_flags [OF e] f show ?thesis
    by simp
qed




text \<open>
  C9. In the row that a create request stores, \<^verbatim>\<open>machineData.images\<close> is to be the list
  of the URLs of the uploaded files and \<^verbatim>\<open>machineData.categories\<close> the parsed list of
  category identifiers. The handler drops from the parsed list what is no number with
  \<^verbatim>\<open>!isNaN(id)\<close>, which keeps \<^verbatim>\<open>Infinity\<close>, and the \<^verbatim>\<open>jsonb\<close> column holds \<^verbatim>\<open>null\<close> for
  it: for \<^verbatim>\<open>categoryIds\<close> \<^verbatim>\<open>["Infinity"]\<close> the parsed list is \<^verbatim>\<open>[Infinity]\<close> and the
  stored list is \<^verbatim>\<open>[null]\<close>.
\<close>

theorem products_post_stores_null_category:
  "parse_category_ids parse_ids infinity (JStr infinity_ids) = Some [PosInf]
   \<and> products_post parse_ids infinity catalog
       (widget_form\<lparr>f_categoryIds := JStr infinity_ids\<rparr>) []
     = (Response CREATED (ProductJson
         (flags_row\<lparr>product_isContactForPrice := JBool False,
            product_machineData :=
              JObj [(''images'', JArr []), (''categories'', JArr [JNull])],
            product_heroIndex := JNum (Fin 0)\<rparr>)),
        catalog\<lparr>products :=
          [flags_row\<lparr>product_isContactForPrice := JBool False,
             product_machineData :=
               JObj [(''images'', JArr []), (''categories'', JArr [JNull])],
             product_heroIndex := JNum (Fin 0)\<rparr>],
          product_seq := 1\<rparr>)"
  by (simp add: products_post_def product_upload_def products_post_handler_def
      parse_category_ids_def product_values_def insert_product_def is_true_flag_def
      number_or_zero_def Let_def)

text \<open>
  For every create request that is answered 201, the stored \<^verbatim>\<open>images\<close> is the list of
  the URLs of the files that the upload wrote and the stored \<^verbatim>\<open>categories\<close> is the
  parsed list as JSON holds it, whatever the bag of the client holds under these two
  keys; it is the parsed list itself when every parsed identifier is finite.
\<close>

lemma products_post_sets_images_and_categories:
  assumes "products_post jp sn s form fs = (Response CREATED (ProductJson row), s')"
  shows "row \<in> set (products s')
     \<and> get_property (product_machineData row) ''images''
         = JArr (map (\<lambda>f. JStr (PRODUCT_IMAGE_URL_PREFIX @ ''/'' @ stored_filename f))
                  (filter fileFilter_accepts fs))
     \<and> (\<exists>ids. (if truthy (f_categoryIds form)
                then parse_category_ids jp sn (f_categoryIds form) else Some []) = Some ids
              \<and> get_property (product_machineData row) ''categories''
                  = JArr (map (\<lambda>n. jsonb (JNum n)) ids)
              \<and> ((\<forall>n\<in>set ids. \<exists>q. n = Fin q)
                  \<longrightarrow> get_property (product_machineData row) ''categories''
                       = JArr (map JNum ids)))"
proof -
  from products_post_created [OF assms] obtain md ids where
    ids: "(if truthy (f_categoryIds form) then parse_category_ids jp sn (f_categoryIds form)
      else Some []) = Some ids"
    and row: "row = (product_values sn form
                (map (\<lambda>fn. PRODUCT_IMAGE_URL_PREFIX @ ''/'' @ fn)
                   (map stored_filename (filter fileFilter_accepts fs)))
                md ids)
             \<lparr>product_id := Suc (product_seq s),
              product_machineData := jsonb (product_machineData
                (product_values sn form
                   (map (\<lambda>fn. PRODUCT_IMAGE_URL_PREFIX @ ''/'' @ fn)
                      (map stored_filename (filter fileFilter_accepts fs)))
                   md ids))\<rparr>"
    and st: "products s' = products s @ [row]"
    by blast
  let ?urls = "map (\<lambda>fn. PRODUCT_IMAGE_URL_PREFIX @ ''/'' @ fn)
      (map stored_filename (filter fileFilter_accepts fs))"
  let ?bag = "AList.update ''categories'' (JArr (map JNum ids))
      (AList.update ''images'' (JArr (map JStr ?urls)) (spread_props md))"
  have md: "product_machineData row = jsonb (JObj ?bag)"
    by (simp add: row product_values_def del: jsonb.simps)
  have "map_of ?bag ''images'' = Some (JArr (map JStr ?urls))"
    by (simp add: update_conv')
  from map_of_jsonb [OF this] have i: "get_property (product_machineData row) ''images''
      = JArr (map JStr ?urls)"
    by (simp add: md get_property_def comp_def)
  have "map_of ?bag ''categories'' = Some (JArr (map JNum ids))"
    by (simp add: update_conv')
  from map_of_jsonb [OF this] have c: "get_property (product_machineData row) ''categories''
      = JArr (map (\<lambda>n. jsonb (JNum n)) ids)"
    by (simp add: md get_property_def comp_def del: jsonb.simps(4,5)) 
  have f: "(\<forall>n\<in>set ids. \<exists>q. n = Fin q) \<Longrightarrow> map (\<lambda>n. jsonb (JNum n)) ids = map JNum ids"
    by (rule map_cong) auto
  from st have "row \<in> set (products s')" by simp
  with i c f ids show ?thesis
    by (auto simp: comp_def simp del: jsonb.simps)
qed

text \<open>
  C10. The update of a category looks up no name, and the table refuses no duplicate:
  from a store with empty tables, two creates and one update that succeeds lead from
  distinct names to two categories with the same name.
\<close>

theorem categories_put_duplicates_name:
  "\<exists>reqs p form.
     distinct (map category_name (categories (run_categories big (empty_store dir) reqs)))
     \<and> status (fst (categories_put (run_categories big (empty_store dir) reqs) p form)) = OK
     \<and> \<not> distinct (map category_name
           (categories (snd (categories_put (run_categories big (empty_store dir) reqs) p form))))"
proof -
  let ?a = "\<lparr>form_name = Some ''Pumps'', form_description = Some ''Industrial pumps unit'', form_image = None\<rparr>"
  let ?b = "\<lparr>form_name = Some ''Valves'', form_description = Some ''Industrial valves unit'', form_image = None\<rparr>"
  let ?u = "\<lparr>form_name = Some ''Pumps'', form_description = None, form_image = None\<rparr>"
  let ?s = "run_categories big (empty_store dir) [PostCategory ?a, PostCategory ?b]"
  have s: "?s = \<lparr>categories =
      [\<lparr>category_id = 1, category_name = ''Pumps'', category_description = ''Industrial pumps unit'', category_imageUrl = None\<rparr>,
       \<lparr>category_id = 2, category_name = ''Valves'', category_description = ''Industrial valves unit'', category_imageUrl = None\<rparr>],
      category_seq = 2, products = [], product_seq = 0, users = [], files = {}, cwd = dir\<rparr>"
    by (simp add: run_categories_def empty_store_def categories_post_def category_upload_def
        categories_post_handler_def falsy_field_def select_category_by_name_def
        insert_category_def Let_def)
  have p: "categories_put ?s ''2'' ?u =
     (Response OK (CategoryJson \<lparr>category_id = 2, category_name = ''Pumps'', category_description = ''Industrial valves unit'', category_imageUrl = None\<rparr>),
      \<lparr>categories =
      [\<lparr>category_id = 1, category_name = ''Pumps'', category_description = ''Industrial pumps unit'', category_imageUrl = None\<rparr>,
       \<lparr>category_id = 2, category_name = ''Pumps'', category_description = ''Industrial valves unit'', category_imageUrl = None\<rparr>],
      category_seq = 2, products = [], product_seq = 0, users = [], files = {}, cwd = dir\<rparr>)"
    unfolding s
    by (simp add: categories_put_def category_upload_def categories_put_handler_def
        parseInt_def is_ws_def parse_unsigned_def parse_digits_def digit_val_def
        select_category_by_id_def falsy_field_def update_category_def
        apply_category_update_def Let_def)
  have "distinct (map category_name (categories ?s))" unfolding s by simp
  moreover have "status (fst (categories_put ?s ''2'' ?u)) = OK" unfolding p by simp
  moreover have "\<not> distinct (map category_name (categories (snd (categories_put ?s ''2'' ?u))))"
    unfolding p by simp
  ultimately show ?thesis by blast
qed

end
